theory Spec2Isabelle
  imports Complex_Main "HOL-Library.Sublist"
begin

section \<open>Python values and exceptions\<close>

text \<open>
  The setters of \<open>GeterosisPlayblast\<close> accept values of any Python type and decide by
  indexing, \<open>isinstance\<close> and truthiness what to do with them, so the arguments are
  modelled as a datatype of Python values. Floats are idealised as reals.
\<close>

datatype pyval =
    PNone
  | PBool bool
  | PInt int
  | PFloat real
  | PStr string
  | PList "pyval list"
  | PTuple "pyval list"

datatype py_error =
    IndexError
  | TypeError
  | KeyError
  | ValueError
  | ZeroDivisionError
  | RuntimeError string

text \<open>Python truthiness: \<open>if x:\<close> / \<open>if not x:\<close>.\<close>

fun truthy :: "pyval \<Rightarrow> bool" where
  "truthy PNone = False"
| "truthy (PBool b) = b"
| "truthy (PInt i) = (i \<noteq> 0)"
| "truthy (PFloat r) = (r \<noteq> 0)"
| "truthy (PStr s) = (s \<noteq> [])"
| "truthy (PList xs) = (xs \<noteq> [])"
| "truthy (PTuple xs) = (xs \<noteq> [])"

text \<open>\<open>x[i]\<close> for a non-negative index: IndexError past the end, TypeError on a value
  that cannot be indexed.\<close>

fun py_index :: "pyval \<Rightarrow> nat \<Rightarrow> py_error + pyval" where
  "py_index (PList xs) i = (if i < length xs then Inr (xs ! i) else Inl IndexError)"
| "py_index (PTuple xs) i = (if i < length xs then Inr (xs ! i) else Inl IndexError)"
| "py_index (PStr s) i = (if i < length s then Inr (PStr [s ! i]) else Inl IndexError)"
| "py_index PNone i = Inl TypeError"
| "py_index (PBool b) i = Inl TypeError"
| "py_index (PInt n) i = Inl TypeError"
| "py_index (PFloat r) i = Inl TypeError"

text \<open>\<open>isinstance(x, int)\<close>: \<open>bool\<close> is a subclass of \<open>int\<close>.\<close>

fun isinstance_int :: "pyval \<Rightarrow> bool" where
  "isinstance_int (PInt i) = True"
| "isinstance_int (PBool b) = True"
| "isinstance_int v = False"

text \<open>The integer value of an \<open>int\<close> instance (\<open>True\<close> is 1, \<open>False\<close> is 0).\<close>

fun int_value :: "pyval \<Rightarrow> int" where
  "int_value (PInt i) = i"
| "int_value (PBool b) = (if b then 1 else 0)"
| "int_value v = 0"

text \<open>The numeric value used by arithmetic; \<open>None\<close> where Python raises TypeError.\<close>

fun py_number :: "pyval \<Rightarrow> real option" where
  "py_number (PInt i) = Some (of_int i)"
| "py_number (PBool b) = Some (if b then 1 else 0)"
| "py_number (PFloat r) = Some r"
| "py_number v = None"

text \<open>\<open>type(x) in [list, tuple]\<close>.\<close>

fun is_list_or_tuple :: "pyval \<Rightarrow> bool" where
  "is_list_or_tuple (PList xs) = True"
| "is_list_or_tuple (PTuple xs) = True"
| "is_list_or_tuple v = False"

text \<open>\<open>int(x)\<close> on a float truncates towards zero.\<close>

definition py_int_of_float :: "real \<Rightarrow> int" where
  "py_int_of_float r = (if 0 \<le> r then \<lfloor>r\<rfloor> else \<lceil>r\<rceil>)"

text \<open>\<open>s.replace(old, new)\<close> for a non-empty \<open>old\<close>: every non-overlapping occurrence,
  left to right.\<close>

fun py_replace :: "string \<Rightarrow> string \<Rightarrow> string \<Rightarrow> string" where
  "py_replace old new [] = []"
| "py_replace old new (c # cs) =
     (if old \<noteq> [] \<and> prefix old (c # cs)
      then new @ py_replace old new (drop (length old) (c # cs))
      else c # py_replace old new cs)"

text \<open>\<open>sub in s\<close> on strings.\<close>

definition py_contains :: "string \<Rightarrow> string \<Rightarrow> bool" where
  "py_contains sub s = list_ex (\<lambda>t. prefix sub t) (suffixes s)"

section \<open>The host application\<close>

text \<open>
  A text built with \<open>str.format\<close> is kept as its template and its arguments.
\<close>

type_synonym fmt = "string \<times> pyval list"

datatype severity = ERROR | WARNING | INFO

datatype log_line = LogLine severity string "pyval list"

text \<open>The keyword arguments of \<open>cmds.playblast\<close> (the dictionary \<open>Options\<close>).\<close>

record pb_options =
  opt_filename :: string
  opt_widthHeight :: pyval
  opt_percent :: int
  opt_startTime :: pyval
  opt_endTime :: pyval
  opt_clearCache :: bool
  opt_forceOverwrite :: bool
  opt_format :: string
  opt_compression :: string
  opt_quality :: int
  opt_indexFromZero :: bool
  opt_framePadding :: int
  opt_showOrnaments :: bool
  opt_viewer :: bool

text \<open>What the code can observe of the file system: \<open>os.path.exists\<close>,
  \<open>os.path.isdir\<close> and the entries of a directory (name, is a regular file).\<close>

record filesys =
  path_exists :: "string \<Rightarrow> bool"
  path_isdir :: "string \<Rightarrow> bool"
  dir_entries :: "string \<Rightarrow> (string \<times> bool) list"

text \<open>The calls into the host and into Qt that change something outside the object,
  in the order they are made.\<close>

datatype host_call =
    CallLookThrough string string
  | CallModelEditorEdit string "(string \<times> pyval) list"
  | CallSetAttr string real
  | CallPlayblast pb_options
  | CallFfmpegStart "fmt list"
  | CallQDirRemove string string
  | CallQDirRmdir string bool
  | CallStartDetached string string
  | CallOpenUrl string

text \<open>
  The state of the host (Maya, Qt, the file system and the Python library functions the
  code calls). The capture primitive and the encoder process are opaque: the host says
  what \<open>cmds.playblast\<close> does to the file system and whether it raises
  (\<open>playblast_prim\<close>), whether the encoder process starts, the chunks it writes to its
  error stream before it stops, and what it does to the file system.
  \<open>model_editor_of p\<close> is \<open>cmds.modelPanel(p, q=True, modelEditor=True)\<close>, \<open>None\<close>
  where it raises (the panel is not a model panel); \<open>editor_flags\<close> are the visibility
  flags of the focused viewport, \<open>None\<close> where the query of a flag raises.
\<close>

record host =
  panel_with_focus :: string
  model_editor_of :: "string \<Rightarrow> string option"
  panel_camera :: "string \<Rightarrow> string"
  editor_flags :: "string \<Rightarrow> pyval option"
  list_cameras :: "string list"
  overscan :: "string \<Rightarrow> real"
  render_width :: int
  render_height :: int
  render_start_frame :: real
  render_end_frame :: real
  playback_min_time :: real
  playback_max_time :: real
  animation_start_time :: real
  animation_end_time :: real
  time_unit :: string
  py_float :: "string \<Rightarrow> real option"
  sound_node :: string
  sound_filename :: string
  sound_offset :: real
  project_root :: string
  scene_short_name :: string
  os_path_join :: "string \<Rightarrow> string \<Rightarrow> string"
  os_path_normpath :: "string \<Rightarrow> string"
  os_path_splitext_root :: "string \<Rightarrow> string"
  fs :: filesys
  playblast_prim :: "pb_options \<Rightarrow> filesys \<Rightarrow> filesys \<times> bool"
  ffmpeg_started :: bool
  ffmpeg_stderr :: "string list"
  ffmpeg_prim :: "fmt list \<Rightarrow> filesys \<Rightarrow> filesys"
  qdir_match :: "string \<Rightarrow> string \<Rightarrow> bool"
  qdir_filePath :: "string \<Rightarrow> string \<Rightarrow> string"
  qfile_removable :: "string \<Rightarrow> bool"
  quicktime_option_var :: "string option"
  calls :: "host_call list"
  maya_display :: "log_line list"
  output_logged :: "log_line list"

section \<open>The playblast object\<close>

record playblast =
  FfmpegPath :: string
  LogToMaya :: bool
  Camera :: "string option"
  ResolutionPreset :: "string option"
  WidthHeight :: "pyval \<times> pyval"
  FrameRangePreset :: "string option"
  StartFrame :: pyval
  EndFrame :: pyval
  Visibility :: pyval
  ContainerFormat :: string
  Encoder :: string
  h264Quality :: string
  h264Preset :: string
  ImageQuality :: int

definition RESOLUTION_LOOKUP :: "(string \<times> pyval) list" where
  "RESOLUTION_LOOKUP =
     [(''Render'', PTuple []),
      (''HD 1080'', PTuple [PInt 1920, PInt 1080]),
      (''HD 720'', PTuple [PInt 1280, PInt 720]),
      (''HD 540'', PTuple [PInt 960, PInt 540])]"

definition FRAME_RANGE_PRESETS :: "string list" where
  "FRAME_RANGE_PRESETS = [''Render'', ''Playback'', ''Animation'']"

definition VIDEO_ENCODER_LOOKUP :: "(string \<times> string list) list" where
  "VIDEO_ENCODER_LOOKUP =
     [(''mov'', [''h264'']),
      (''mp4'', [''h264'']),
      (''Image'', [''jpg'', ''png'', ''tif''])]"

definition H264_QUALITIES :: "(string \<times> int) list" where
  "H264_QUALITIES = [(''Very High'', 18), (''High'', 20), (''Medium'', 23), (''Low'', 26)]"

definition H264_PRESETS :: "string list" where
  "H264_PRESETS = [''veryslow'', ''slow'', ''medium'', ''fast'', ''faster'', ''ultrafast'']"

definition VIEWPORT_VISIBILITY_LOOKUP :: "(string \<times> string) list" where
  "VIEWPORT_VISIBILITY_LOOKUP =
     [(''Controllers'', ''controllers''),
      (''NURBS Curves'', ''nurbsCurves''),
      (''NURBS Surfaces'', ''nurbsSurfaces''),
      (''NURBS CVs'', ''cv''),
      (''NURBS Hulls'', ''hulls''),
      (''Polygons'', ''polymeshes''),
      (''Subdiv Surfaces'', ''subdivSurfaces''),
      (''Planes'', ''planes''),
      (''Lights'', ''lights''),
      (''Cameras'', ''cameras''),
      (''Image Planes'', ''imagePlane''),
      (''Joints'', ''joints''),
      (''IK Handles'', ''ikHandles''),
      (''Deformers'', ''deformers''),
      (''Dynamics'', ''dynamics''),
      (''Particle Instancers'', ''particleInstancers''),
      (''Fluids'', ''fluids''),
      (''Hair Systems'', ''hairSystems''),
      (''Follicles'', ''follicles''),
      (''nCloths'', ''nCloths''),
      (''nParticles'', ''nParticles''),
      (''nRigids'', ''nRigids''),
      (''Dynamic Constraints'', ''dynamicConstraints''),
      (''Locators'', ''locators''),
      (''Dimensions'', ''dimensions''),
      (''Pivots'', ''pivots''),
      (''Handles'', ''handles''),
      (''Texture Placements'', ''textures''),
      (''Strokes'', ''strokes''),
      (''Motion Trails'', ''motionTrails''),
      (''Plugin Shapes'', ''pluginShapes''),
      (''Clip Ghosts'', ''clipGhosts''),
      (''Grease Pencil'', ''greasePencils''),
      (''Grid'', ''grid''),
      (''HUD'', ''hud''),
      (''Hold-Outs'', ''hos''),
      (''Selection Highlighting'', ''sel'')]"

definition VIEWPORT_VISIBILITY_PRESETS :: "(string \<times> string list) list" where
  "VIEWPORT_VISIBILITY_PRESETS =
     [(''Viewport'', []),
      (''Geo'', [''NURBS Surfaces'', ''Polygons'']),
      (''Dynamics'', [''NURBS Surfaces'', ''Polygons'', ''Dynamics'', ''Fluids'', ''nParticles''])]"

definition DEFAULT_PADDING :: int where
  "DEFAULT_PADDING = 4"

subsection \<open>Logging\<close>

definition emit_log :: "playblast \<Rightarrow> log_line \<Rightarrow> host \<Rightarrow> host" where
  "emit_log self l h =
     h\<lparr>maya_display := (if LogToMaya self then maya_display h @ [l] else maya_display h),
       output_logged := output_logged h @ [l]\<rparr>"

definition LogError :: "playblast \<Rightarrow> string \<Rightarrow> pyval list \<Rightarrow> host \<Rightarrow> host" where
  "LogError self text args h = emit_log self (LogLine ERROR text args) h"

definition LogWarning :: "playblast \<Rightarrow> string \<Rightarrow> pyval list \<Rightarrow> host \<Rightarrow> host" where
  "LogWarning self text args h = emit_log self (LogLine WARNING text args) h"

definition LogOutput :: "playblast \<Rightarrow> string \<Rightarrow> pyval list \<Rightarrow> host \<Rightarrow> host" where
  "LogOutput self text args h = emit_log self (LogLine INFO text args) h"

subsection \<open>Camera\<close>

definition SetCamera :: "string option \<Rightarrow> playblast \<Rightarrow> host \<Rightarrow> playblast \<times> host" where
  "SetCamera cam self h =
     (case cam of
        None \<Rightarrow> (self\<lparr>Camera := None\<rparr>, h)
      | Some c \<Rightarrow>
          if c \<noteq> [] \<and> c \<notin> set (list_cameras h)
          then (self\<lparr>Camera := None\<rparr>, LogError self ''Camera does not exist: {0}'' [PStr c] h)
          else (self\<lparr>Camera := Some c\<rparr>, h))"

subsection \<open>Resolution\<close>

definition PresetToResolution :: "pyval \<Rightarrow> host \<Rightarrow> py_error + pyval" where
  "PresetToResolution preset h =
     (if preset = PStr ''Render''
      then Inr (PTuple [PInt (render_width h), PInt (render_height h)])
      else case preset of
             PStr s \<Rightarrow> (case map_of RESOLUTION_LOOKUP s of
                          Some wh \<Rightarrow> Inr wh
                        | None \<Rightarrow> Inl (RuntimeError ''Invalid resolution preset''))
           | _ \<Rightarrow> Inl (RuntimeError ''Invalid resolution preset''))"

text \<open>The name kept in \<open>_ResolutionPreset\<close>: \<open>PresetToResolution\<close> returns only for a
  string.\<close>

fun preset_name :: "pyval \<Rightarrow> string option" where
  "preset_name (PStr s) = Some s"
| "preset_name v = None"

text \<open>The second \<open>try\<close> of \<open>SetResolution\<close>: both of the first two entries exist and are
  \<open>int\<close> instances (the second is looked at only if the first is one).\<close>

definition valid_resolution :: "pyval \<Rightarrow> bool" where
  "valid_resolution wh =
     (case py_index wh 0 of
        Inl e \<Rightarrow> False
      | Inr a \<Rightarrow>
          if isinstance_int a
          then (case py_index wh 1 of Inl e \<Rightarrow> False | Inr b \<Rightarrow> isinstance_int b)
          else False)"

definition entry :: "pyval \<Rightarrow> nat \<Rightarrow> pyval" where
  "entry v i = (case py_index v i of Inr a \<Rightarrow> a | Inl e \<Rightarrow> PNone)"

definition SetResolution :: "pyval \<Rightarrow> playblast \<Rightarrow> host \<Rightarrow> playblast \<times> host" where
  "SetResolution Resolution self h =
     (let self1 = self\<lparr>ResolutionPreset := None\<rparr>;
          (wh, self2) =
            (case PresetToResolution Resolution h of
               Inr r \<Rightarrow> (r, self1\<lparr>ResolutionPreset := preset_name Resolution\<rparr>)
             | Inl e \<Rightarrow> (Resolution, self1))
      in if valid_resolution wh
         then if int_value (entry wh 0) \<le> 0 \<or> int_value (entry wh 1) \<le> 0
              then (self2, LogError self2
                      ''Invalid resolution: {0}. Values must be greater than zero.'' [wh] h)
              else (self2\<lparr>WidthHeight := (entry wh 0, entry wh 1)\<rparr>, h)
         else (self2, LogError self2
                 ''Invalid resoluton: {0}. Expected one of [int, int], {1}''
                 [wh, PList (map (\<lambda>p. PStr (fst p)) RESOLUTION_LOOKUP)] h))"

definition GetResolutionWidthHeight :: "playblast \<Rightarrow> host \<Rightarrow> py_error + pyval" where
  "GetResolutionWidthHeight self h =
     (case ResolutionPreset self of
        Some p \<Rightarrow> if p \<noteq> [] then PresetToResolution (PStr p) h
                  else Inr (PTuple [fst (WidthHeight self), snd (WidthHeight self)])
      | None \<Rightarrow> Inr (PTuple [fst (WidthHeight self), snd (WidthHeight self)]))"


subsection \<open>Frame range\<close>

definition PresetToFrameRange :: "pyval \<Rightarrow> host \<Rightarrow> py_error + pyval \<times> pyval" where
  "PresetToFrameRange preset h =
     (if preset = PStr ''Render''
      then Inr (PInt (py_int_of_float (render_start_frame h)),
                PInt (py_int_of_float (render_end_frame h)))
      else if preset = PStr ''Playback''
      then Inr (PInt (py_int_of_float (playback_min_time h)),
                PInt (py_int_of_float (playback_max_time h)))
      else if preset = PStr ''Animation''
      then Inr (PInt (py_int_of_float (animation_start_time h)),
                PInt (py_int_of_float (animation_end_time h)))
      else Inl (RuntimeError ''Invalid frame range preset''))"

definition ResolveFrameRange ::
  "pyval \<Rightarrow> playblast \<Rightarrow> host \<Rightarrow> (pyval \<times> pyval) option \<times> host" where
  "ResolveFrameRange FrameRange self h =
     (case (if is_list_or_tuple FrameRange
            then (case py_index FrameRange 0 of
                    Inl e \<Rightarrow> Inl e
                  | Inr s \<Rightarrow> (case py_index FrameRange 1 of
                               Inl e \<Rightarrow> Inl e
                             | Inr e \<Rightarrow> Inr (s, e)))
            else PresetToFrameRange FrameRange h) of
        Inr se \<Rightarrow> (Some se, h)
      | Inl e \<Rightarrow>
          (None, LogError self
             ''Invalid frame range. Expected one of (start_frame, end_frame), {0}''
             [PList (map PStr FRAME_RANGE_PRESETS)] h))"

text \<open>\<open>FrameRange in FRAME_RANGE_PRESETS\<close>: only a string equals one of the names.\<close>

definition frame_range_preset_of :: "pyval \<Rightarrow> string option" where
  "frame_range_preset_of v =
     (case v of
        PStr s \<Rightarrow> if s \<in> set FRAME_RANGE_PRESETS then Some s else None
      | _ \<Rightarrow> None)"

definition SetFrameRange :: "pyval \<Rightarrow> playblast \<Rightarrow> host \<Rightarrow> playblast \<times> host" where
  "SetFrameRange FrameRange self h =
     (case ResolveFrameRange FrameRange self h of
        (None, h1) \<Rightarrow> (self, h1)
      | (Some (s, e), h1) \<Rightarrow>
          (self\<lparr>FrameRangePreset := frame_range_preset_of FrameRange,
                StartFrame := s, EndFrame := e\<rparr>, h1))"

definition GetStartEndFrame :: "playblast \<Rightarrow> host \<Rightarrow> py_error + pyval \<times> pyval" where
  "GetStartEndFrame self h =
     (case FrameRangePreset self of
        Some p \<Rightarrow> if p \<noteq> [] then PresetToFrameRange (PStr p) h
                  else Inr (StartFrame self, EndFrame self)
      | None \<Rightarrow> Inr (StartFrame self, EndFrame self))"

subsection \<open>Viewport queries and mutations\<close>

definition GetViewportPanel :: "playblast \<Rightarrow> host \<Rightarrow> string option \<times> host" where
  "GetViewportPanel self h =
     (case model_editor_of h (panel_with_focus h) of
        None \<Rightarrow> (None, LogError self ''Failed to get active view.'' [] h)
      | Some ed \<Rightarrow> (Some (panel_with_focus h), h))"

text \<open>\<open>if ModelPanel:\<close> on the result of \<open>GetViewportPanel\<close>.\<close>

definition panel_ok :: "string option \<Rightarrow> bool" where
  "panel_ok p = (case p of None \<Rightarrow> False | Some s \<Rightarrow> s \<noteq> [])"

definition panel_name :: "string option \<Rightarrow> string" where
  "panel_name p = (case p of None \<Rightarrow> ''None'' | Some s \<Rightarrow> s)"

definition GetViewportVisibility :: "playblast \<Rightarrow> host \<Rightarrow> pyval \<times> host" where
  "GetViewportVisibility self h =
     (case GetViewportPanel self h of
        (ModelPanel, h1) \<Rightarrow>
          if \<not> panel_ok ModelPanel
          then (PNone, LogError self
                  ''Failed to get viewport visibility. A viewport is not active.'' [] h1)
          else (case those (map (\<lambda>Item. editor_flags h1 (snd Item)) VIEWPORT_VISIBILITY_LOOKUP) of
                  None \<Rightarrow>
                    (PNone, LogError self
                       ''Failed to get active viewport visibility. See script editor for details.''
                       [] h1)
                | Some vs \<Rightarrow> (PList vs, h1)))"

definition SetViewportVisibility :: "string \<Rightarrow> (string \<times> pyval) list \<Rightarrow> host \<Rightarrow> host" where
  "SetViewportVisibility ModelEditor VisibilityFlags h =
     h\<lparr>editor_flags := fold (\<lambda>kv m. m(fst kv \<mapsto> snd kv)) VisibilityFlags (editor_flags h),
       calls := calls h @ [CallModelEditorEdit ModelEditor VisibilityFlags]\<rparr>"

text \<open>The loop of \<open>CreateViewportVisibilityFlags\<close>: \<open>DataIndex\<close> runs with the entries of
  the lookup table, and \<open>VisibilityData[DataIndex]\<close> raises past the end of the data.\<close>

fun build_flags ::
  "(string \<times> string) list \<Rightarrow> pyval \<Rightarrow> nat \<Rightarrow> (string \<times> pyval) list
   \<Rightarrow> py_error + (string \<times> pyval) list" where
  "build_flags [] VisibilityData DataIndex VisibilityFlags = Inr VisibilityFlags"
| "build_flags (Item # Items) VisibilityData DataIndex VisibilityFlags =
     (case py_index VisibilityData DataIndex of
        Inl e \<Rightarrow> Inl e
      | Inr v \<Rightarrow>
          build_flags Items VisibilityData (Suc DataIndex) (VisibilityFlags @ [(snd Item, v)]))"

definition CreateViewportVisibilityFlags :: "pyval \<Rightarrow> py_error + (string \<times> pyval) list" where
  "CreateViewportVisibilityFlags VisibilityData =
     build_flags VIEWPORT_VISIBILITY_LOOKUP VisibilityData 0 []"

definition GetActiveCamera :: "playblast \<Rightarrow> host \<Rightarrow> string option \<times> host" where
  "GetActiveCamera self h =
     (case GetViewportPanel self h of
        (ModelPanel, h1) \<Rightarrow>
          if \<not> panel_ok ModelPanel
          then (None, LogError self
                  ''Failed to get active camera. A viewport is not active.'' [] h1)
          else (Some (panel_camera h1 (panel_name ModelPanel)), h1))"

definition SetActiveCamera :: "string option \<Rightarrow> playblast \<Rightarrow> host \<Rightarrow> host" where
  "SetActiveCamera camera self h =
     (case GetViewportPanel self h of
        (ModelPanel, h1) \<Rightarrow>
          if panel_ok ModelPanel
          then h1\<lparr>panel_camera := (panel_camera h1)(panel_name ModelPanel := panel_name camera),
                  calls := calls h1 @ [CallLookThrough (panel_name camera) (panel_name ModelPanel)]\<rparr>
          else LogError self ''Failed to set active camera. A viewport is not active.'' [] h1)"

subsection \<open>Visibility\<close>

definition PresetToVisibility :: "pyval \<Rightarrow> playblast \<Rightarrow> host \<Rightarrow> pyval \<times> host" where
  "PresetToVisibility VisibilityPreset self h =
     (case (case VisibilityPreset of
              PStr s \<Rightarrow> map_of VIEWPORT_VISIBILITY_PRESETS s
            | _ \<Rightarrow> None) of
        None \<Rightarrow> (PNone, LogError self ''Invaild visibility preset: {0}'' [VisibilityPreset] h)
      | Some PresetNames \<Rightarrow>
          (PList (if PresetNames \<noteq> []
                  then map (\<lambda>lookup_item. PBool (fst lookup_item \<in> set PresetNames))
                         VIEWPORT_VISIBILITY_LOOKUP
                  else []), h))"

definition SetVisibility :: "pyval \<Rightarrow> playblast \<Rightarrow> host \<Rightarrow> playblast \<times> host" where
  "SetVisibility VisibilityData self h =
     (let v = (if \<not> truthy VisibilityData then PList [] else VisibilityData)
      in if \<not> is_list_or_tuple v
         then (case PresetToVisibility v self h of
                 (v', h1) \<Rightarrow> if v' = PNone then (self, h1) else (self\<lparr>Visibility := v'\<rparr>, h1))
         else (self\<lparr>Visibility := v\<rparr>, h))"

definition GetVisibility :: "playblast \<Rightarrow> host \<Rightarrow> pyval \<times> host" where
  "GetVisibility self h =
     (if \<not> truthy (Visibility self) then GetViewportVisibility self h
      else (Visibility self, h))"

subsection \<open>Encoding settings\<close>

definition SetEncoding :: "string \<Rightarrow> string \<Rightarrow> playblast \<Rightarrow> host \<Rightarrow> playblast \<times> host" where
  "SetEncoding Container Enc self h =
     (case map_of VIDEO_ENCODER_LOOKUP Container of
        None \<Rightarrow>
          (self, LogError self ''Invalid container: {0}. Expected one of {1}''
                   [PStr Container, PList (map (\<lambda>p. PStr (fst p)) VIDEO_ENCODER_LOOKUP)] h)
      | Some encoders \<Rightarrow>
          if Enc \<notin> set encoders
          then (self, LogError self ''Invalid encoder: {0}. Expected one of {1}''
                        [PStr Enc, PList (map PStr encoders)] h)
          else (self\<lparr>ContainerFormat := Container, Encoder := Enc\<rparr>, h))"

definition Seth264Settings :: "string \<Rightarrow> string \<Rightarrow> playblast \<Rightarrow> host \<Rightarrow> playblast \<times> host" where
  "Seth264Settings Quality Preset self h =
     (if Quality \<notin> set (map fst H264_QUALITIES)
      then (self, LogError self ''Invalid h264 quality: {0}. Expected one of {1}''
                    [PStr Quality, PList (map (\<lambda>p. PStr (fst p)) H264_QUALITIES)] h)
      else if Preset \<notin> set H264_PRESETS
      then (self, LogError self ''Invalid h264 preset: {0}. Expected one of {1}''
                    [PStr Preset, PList (map PStr H264_PRESETS)] h)
      else (self\<lparr>h264Quality := Quality, h264Preset := Preset\<rparr>, h))"

definition Geth264Settings :: "playblast \<Rightarrow> string \<times> string" where
  "Geth264Settings self = (h264Quality self, h264Preset self)"

definition SetImageSettings :: "int \<Rightarrow> playblast \<Rightarrow> host \<Rightarrow> playblast \<times> host" where
  "SetImageSettings Quality self h =
     (if 0 < Quality \<and> Quality \<le> 100
      then (self\<lparr>ImageQuality := Quality\<rparr>, h)
      else (self, LogError self ''Invalid image quality: {0}. Expected value between 1-100'' [] h))"

definition GetImageSettings :: "playblast \<Rightarrow> int" where
  "GetImageSettings self = ImageQuality self"

section \<open>Capture and encoding\<close>

subsection \<open>Paths and names\<close>

definition GetProjectDirPath :: "host \<Rightarrow> string" where
  "GetProjectDirPath h = project_root h"

definition GetSceneName :: "host \<Rightarrow> string" where
  "GetSceneName h =
     (if scene_short_name h \<noteq> [] then os_path_splitext_root h (scene_short_name h)
      else ''untitled'')"

definition ResolveOutputDirectoryPath :: "string \<Rightarrow> host \<Rightarrow> string" where
  "ResolveOutputDirectoryPath DirPath h =
     (if py_contains ''{project}'' DirPath
      then py_replace ''{project}'' (GetProjectDirPath h) DirPath
      else DirPath)"

definition ResolveOutputFilename :: "string \<Rightarrow> host \<Rightarrow> string" where
  "ResolveOutputFilename FileName h =
     (if py_contains ''{scene}'' FileName
      then py_replace ''{scene}'' (GetSceneName h) FileName
      else FileName)"

text \<open>\<open>str\<close> of an integer, as \<open>format\<close> writes the padding into the frame pattern.\<close>

fun nat_digits :: "nat \<Rightarrow> string" where
  "nat_digits n =
     (if n < 10 then [''0123456789'' ! n]
      else nat_digits (n div 10) @ [''0123456789'' ! (n mod 10)])"

definition py_str_int :: "int \<Rightarrow> string" where
  "py_str_int i = (if i < 0 then CHR ''-'' # nat_digits (nat (- i)) else nat_digits (nat i))"

subsection \<open>The encoder\<close>

definition RequiresFfmpeg :: "playblast \<Rightarrow> bool" where
  "RequiresFfmpeg self = (ContainerFormat self \<noteq> ''Image'')"

definition ValidateFfmpeg :: "playblast \<Rightarrow> host \<Rightarrow> bool \<times> host" where
  "ValidateFfmpeg self h =
     (if FfmpegPath self = []
      then (False, LogError self ''ffmpeg executable path not set'' [] h)
      else if \<not> path_exists (fs h) (FfmpegPath self)
      then (False, LogError self ''ffmpeg executable path does not exist: {0}''
                     [PStr (FfmpegPath self)] h)
      else if path_isdir (fs h) (FfmpegPath self)
      then (False, LogError self ''Invalid ffmpeg path: {0}'' [PStr (FfmpegPath self)] h)
      else (True, h))"

text \<open>
  The polling loop of \<open>ExecuteFfmpegCommand\<close>: every round processes the pending Qt
  events, which delivers one chunk of the encoder's error stream to
  \<open>ProcessFfmpegOutput\<close>; the process is \<open>NotRunning\<close> once the host has no chunk left.
  The host's list of chunks is finite: an encoder that never stops is not modelled.
\<close>

fun wait_ffmpeg :: "playblast \<Rightarrow> string list \<Rightarrow> host \<Rightarrow> host" where
  "wait_ffmpeg self [] h = h"
| "wait_ffmpeg self (chunk # chunks) h = wait_ffmpeg self chunks (LogOutput self chunk [] h)"

definition ExecuteFfmpegCommand :: "fmt list \<Rightarrow> playblast \<Rightarrow> host \<Rightarrow> host" where
  "ExecuteFfmpegCommand Command self h =
     (let h1 = h\<lparr>calls := calls h @ [CallFfmpegStart Command]\<rparr>
      in if ffmpeg_started h1
         then (let h2 = wait_ffmpeg self (ffmpeg_stderr h1) h1
               in h2\<lparr>fs := ffmpeg_prim h2 Command (fs h2)\<rparr>)
         else h1)"

definition GetFrameRate :: "host \<Rightarrow> py_error + real" where
  "GetFrameRate h =
     (let RateStr = time_unit h
      in if RateStr = ''game'' then Inr 15
         else if RateStr = ''film'' then Inr 24
         else if RateStr = ''pal'' then Inr 25
         else if RateStr = ''ntsc'' then Inr 30
         else if RateStr = ''show'' then Inr 48
         else if RateStr = ''palf'' then Inr 50
         else if RateStr = ''ntscf'' then Inr 60
         else if suffix ''fps'' RateStr
         then (case py_float h (take (length RateStr - 3) RateStr) of
                 None \<Rightarrow> Inl ValueError
               | Some r \<Rightarrow> Inr r)
         else Inl (RuntimeError ''Unsupported frame rate''))"

definition GetAudioAttributes :: "host \<Rightarrow> (string \<times> real) option" where
  "GetAudioAttributes h =
     (if sound_node h \<noteq> [] \<and> path_exists (fs h) (sound_filename h)
      then Some (sound_filename h, sound_offset h)
      else None)"

definition GetAudioOffsetInSec :: "pyval \<Rightarrow> real \<Rightarrow> real \<Rightarrow> py_error + real" where
  "GetAudioOffsetInSec StartFr AudioFrameOffset FrameRate =
     (case py_number StartFr of
        None \<Rightarrow> Inl TypeError
      | Some s \<Rightarrow>
          if FrameRate = 0 then Inl ZeroDivisionError
          else Inr ((s - AudioFrameOffset) / FrameRate))"

text \<open>The audio file and its offset in seconds, where \<open>if AudioFilePath:\<close> holds.\<close>

definition audio_input :: "pyval \<Rightarrow> real \<Rightarrow> host \<Rightarrow> py_error + (string \<times> real) option" where
  "audio_input StartFr Framerate h =
     (case GetAudioAttributes h of
        None \<Rightarrow> Inr None
      | Some (AudioFilePath, AudioFrameOffset) \<Rightarrow>
          if AudioFilePath \<noteq> []
          then (case GetAudioOffsetInSec StartFr AudioFrameOffset Framerate of
                  Inl e \<Rightarrow> Inl e
                | Inr AudioOffset \<Rightarrow> Inr (Some (AudioFilePath, AudioOffset)))
          else Inr None)"

definition ffmpeg_command ::
  "playblast \<Rightarrow> real \<Rightarrow> string \<Rightarrow> (string \<times> real) option \<Rightarrow> int \<Rightarrow> string \<Rightarrow> fmt list" where
  \<open>ffmpeg_command self Framerate SourcePath audio Crf OutputPath =
     [(FfmpegPath self, []),
      ('' -y -framerate {0} -i "{1}"'', [PFloat Framerate, PStr SourcePath])]
     @ (case audio of
          None \<Rightarrow> []
        | Some (AudioFilePath, AudioOffset) \<Rightarrow>
            [('' -ss {0} -i "{1}"'', [PFloat AudioOffset, PStr AudioFilePath])])
     @ [('' -c:v libx264 -crf:v {0} -preset:v {1} -profile high -level 4.0 -pix_fmt yuv420p'',
         [PInt Crf, PStr (h264Preset self)])]
     @ (case audio of
          None \<Rightarrow> []
        | Some a \<Rightarrow> [('' -filter_complex "[1:0] apad" -shortest'', [])])
     @ [('' "{0}"'', [PStr OutputPath])]\<close>

definition Encodeh264 ::
  "string \<Rightarrow> string \<Rightarrow> pyval \<Rightarrow> playblast \<Rightarrow> host \<Rightarrow> (py_error + unit) \<times> host" where
  "Encodeh264 SourcePath OutputPath StartFr self h =
     (case GetFrameRate h of
        Inl e \<Rightarrow> (Inl e, h)
      | Inr Framerate \<Rightarrow>
          (case audio_input StartFr Framerate h of
             Inl e \<Rightarrow> (Inl e, h)
           | Inr audio \<Rightarrow>
               (case map_of H264_QUALITIES (h264Quality self) of
                  None \<Rightarrow> (Inl KeyError, h)
                | Some Crf \<Rightarrow>
                    (let FfmpegCmd = ffmpeg_command self Framerate SourcePath audio Crf OutputPath;
                         h1 = LogOutput self (concat (map fst FfmpegCmd))
                                (concat (map snd FfmpegCmd)) h
                     in (Inr (), ExecuteFfmpegCommand FfmpegCmd self h1)))))"

subsection \<open>The temporary directory and the viewer\<close>

definition qdir_remove :: "string \<Rightarrow> string \<Rightarrow> host \<Rightarrow> host" where
  "qdir_remove d n h =
     (let p = qdir_filePath h d n;
          h1 = h\<lparr>calls := calls h @ [CallQDirRemove d n]\<rparr>
      in if qfile_removable h1 p
         then h1\<lparr>fs := (fs h1)\<lparr>path_exists := (path_exists (fs h1))(p := False),
                              dir_entries := (dir_entries (fs h1))
                                (d := filter (\<lambda>e. fst e \<noteq> n) (dir_entries (fs h1) d))\<rparr>\<rparr>
         else h1)"

text \<open>\<open>QDir.rmdir\<close> removes a directory only if it is empty.\<close>

definition qdir_rmdir :: "string \<Rightarrow> string \<Rightarrow> host \<Rightarrow> bool \<times> host" where
  "qdir_rmdir d n h =
     (let p = qdir_filePath h d n;
          ok = (path_isdir (fs h) p \<and> dir_entries (fs h) p = []);
          h1 = h\<lparr>calls := calls h @ [CallQDirRmdir p ok]\<rparr>
      in if ok
         then (True, h1\<lparr>fs := (fs h1)\<lparr>path_exists := (path_exists (fs h1))(p := False),
                                    path_isdir := (path_isdir (fs h1))(p := False)\<rparr>\<rparr>)
         else (False, h1))"

definition RemoveTempDir :: "string \<Rightarrow> playblast \<Rightarrow> host \<Rightarrow> host" where
  "RemoveTempDir TempDirPath self h =
     (let entryList = map fst (filter (\<lambda>e. snd e \<and> qdir_match h ''*.png'' (fst e))
                                 (dir_entries (fs h) TempDirPath));
          h1 = fold (\<lambda>i. qdir_remove TempDirPath i) entryList h
      in case qdir_rmdir TempDirPath TempDirPath h1 of
           (ok, h2) \<Rightarrow>
             if \<not> ok
             then LogWarning self ''Failed to remove temporary directory: {0}''
                    [PStr TempDirPath] h2
             else h2)"

definition OpenInViewer :: "string \<Rightarrow> playblast \<Rightarrow> host \<Rightarrow> host" where
  "OpenInViewer Path self h =
     (if \<not> path_exists (fs h) Path
      then LogError self ''Failed to open in viewer. File does not exists: {0}'' [PStr Path] h
      else case (if ContainerFormat self \<in> {''mov'', ''mp4''} then quicktime_option_var h
                 else None) of
             None \<Rightarrow> h\<lparr>calls := calls h @ [CallOpenUrl Path]\<rparr>
           | Some ExecutablePath \<Rightarrow>
               if ExecutablePath \<noteq> []
               then h\<lparr>calls := calls h @ [CallStartDetached ExecutablePath Path]\<rparr>
               else h\<lparr>calls := calls h @ [CallOpenUrl Path]\<rparr>)"

subsection \<open>execute\<close>

text \<open>How a part of \<open>execute\<close> ends: an exception leaves it, it returns from \<open>execute\<close>,
  or control goes on to the next statement with a value.\<close>

datatype 'a step = Raise py_error | Return | Next 'a

definition options_pyval :: "pb_options \<Rightarrow> pyval" where
  "options_pyval opts =
     PList [PTuple [PStr ''filename'', PStr (opt_filename opts)],
            PTuple [PStr ''widthHeight'', opt_widthHeight opts],
            PTuple [PStr ''percent'', PInt (opt_percent opts)],
            PTuple [PStr ''startTime'', opt_startTime opts],
            PTuple [PStr ''endTime'', opt_endTime opts],
            PTuple [PStr ''clearCache'', PBool (opt_clearCache opts)],
            PTuple [PStr ''forceOverwrite'', PBool (opt_forceOverwrite opts)],
            PTuple [PStr ''format'', PStr (opt_format opts)],
            PTuple [PStr ''compression'', PStr (opt_compression opts)],
            PTuple [PStr ''quality'', PInt (opt_quality opts)],
            PTuple [PStr ''indexFromZero'', PBool (opt_indexFromZero opts)],
            PTuple [PStr ''framePadding'', PInt (opt_framePadding opts)],
            PTuple [PStr ''showOrnaments'', PBool (opt_showOrnaments opts)],
            PTuple [PStr ''viewer'', PBool (opt_viewer opts)]]"

definition set_overscan :: "string \<Rightarrow> real \<Rightarrow> host \<Rightarrow> host" where
  "set_overscan cam v h =
     h\<lparr>overscan := (overscan h)(cam := v),
       calls := calls h @ [CallSetAttr (cam @ ''.overscan'') v]\<rparr>"

text \<open>\<open>try: cmds.playblast(**Options) except: ...\<close>, giving \<open>PlayblastFailed\<close>.\<close>

definition try_playblast :: "pb_options \<Rightarrow> playblast \<Rightarrow> host \<Rightarrow> bool \<times> host" where
  "try_playblast Options self h =
     (case playblast_prim h Options (fs h) of
        (fs', raised) \<Rightarrow>
          (let h1 = h\<lparr>fs := fs', calls := calls h @ [CallPlayblast Options]\<rparr>
           in if raised
              then (True, LogError self
                      ''Failed to create playblast. See script editor for details.'' [] h1)
              else (False, h1)))"

text \<open>The \<open>finally\<close> block of \<open>execute\<close>.\<close>

definition restore_viewport ::
  "bool \<Rightarrow> string \<Rightarrow> real \<Rightarrow> string option \<Rightarrow> string \<Rightarrow> (string \<times> pyval) list
   \<Rightarrow> playblast \<Rightarrow> host \<Rightarrow> host" where
  "restore_viewport Overscan Cam OrigOverscan OriginalCamera ModelEditor OriginVisibilityFlags
     self h =
     (let h1 = (if \<not> Overscan then set_overscan Cam OrigOverscan h else h);
          h2 = SetActiveCamera OriginalCamera self h1
      in SetViewportVisibility ModelEditor OriginVisibilityFlags h2)"

text \<open>From \<open># Store original camera settings\<close> to the end of the \<open>finally\<close> block.\<close>

definition capture_and_restore ::
  "playblast \<Rightarrow> bool \<Rightarrow> pb_options \<Rightarrow> string \<Rightarrow> string option \<Rightarrow> string
   \<Rightarrow> (string \<times> pyval) list \<Rightarrow> host \<Rightarrow> bool \<times> host" where
  "capture_and_restore self Overscan Options Cam OriginalCamera ModelEditor
     OriginVisibilityFlags h =
     (let OrigOverscan = overscan h Cam;
          h1 = (if \<not> Overscan then set_overscan Cam 1 h else h)
      in case try_playblast Options self h1 of
           (PlayblastFailed, h2) \<Rightarrow>
             (PlayblastFailed,
              restore_viewport Overscan Cam OrigOverscan OriginalCamera ModelEditor
                OriginVisibilityFlags self h2))"

text \<open>From \<open>self.SetActiveCamera(Camera)\<close> to the end of the \<open>finally\<close> block.\<close>

definition mutate_and_capture ::
  "playblast \<Rightarrow> string \<Rightarrow> bool \<Rightarrow> pb_options \<Rightarrow> string \<Rightarrow> string option \<Rightarrow> host
   \<Rightarrow> bool step \<times> host" where
  "mutate_and_capture self ViewportModelPanel Overscan Options Cam OriginalCamera h =
     (case GetViewportVisibility self (SetActiveCamera (Some Cam) self h) of
        (vv, h3) \<Rightarrow>
          (case CreateViewportVisibilityFlags vv of
             Inl e \<Rightarrow> (Raise e, h3)
           | Inr OriginVisibilityFlags \<Rightarrow>
               (case GetVisibility self h3 of
                  (pv, h4) \<Rightarrow>
                    (case CreateViewportVisibilityFlags pv of
                       Inl e \<Rightarrow> (Raise e, h4)
                     | Inr PlayblastVisibilityFlags \<Rightarrow>
                         (case model_editor_of h4 ViewportModelPanel of
                            None \<Rightarrow> (Raise (RuntimeError ''modelPanel''), h4)
                          | Some ModelEditor \<Rightarrow>
                              (case capture_and_restore self Overscan Options Cam OriginalCamera
                                      ModelEditor OriginVisibilityFlags
                                      (SetViewportVisibility ModelEditor
                                         PlayblastVisibilityFlags h4) of
                                 (PlayblastFailed, h5) \<Rightarrow> (Next PlayblastFailed, h5)))))))"

text \<open>From \<open># Store original viewport settings\<close> to the end of the \<open>finally\<close> block.\<close>

definition execute_capture ::
  "playblast \<Rightarrow> string \<Rightarrow> bool \<Rightarrow> pb_options \<Rightarrow> host \<Rightarrow> bool step \<times> host" where
  "execute_capture self ViewportModelPanel Overscan Options h =
     (case GetActiveCamera self h of
        (OriginalCamera, h1) \<Rightarrow>
          (case (case Camera self of
                   None \<Rightarrow> OriginalCamera
                 | Some c \<Rightarrow> if c = [] then OriginalCamera else Some c) of
             None \<Rightarrow> (Return, LogError self ''Camera does not exist: {0}'' [PNone] h1)
           | Some Cam \<Rightarrow>
               if Cam \<notin> set (list_cameras h1)
               then (Return, LogError self ''Camera does not exist: {0}'' [PStr Cam] h1)
               else mutate_and_capture self ViewportModelPanel Overscan Options Cam
                      OriginalCamera h1))"

text \<open>The statements after \<open>if PlayblastFailed: return\<close>, for a compressed container.\<close>

definition execute_encode ::
  "playblast \<Rightarrow> string \<Rightarrow> string \<Rightarrow> int \<Rightarrow> string \<Rightarrow> pyval \<Rightarrow> bool \<Rightarrow> host
   \<Rightarrow> (py_error + unit) \<times> host" where
  "execute_encode self PlayblastOutputDir FileName Padding OutputPath StartFr ShowInViewer h =
     (let SourcePath = PlayblastOutputDir @ ''/'' @ FileName @ ''.%0'' @ py_str_int Padding
                       @ ''d.png''
      in if Encoder self = ''h264''
         then (case Encodeh264 SourcePath OutputPath StartFr self h of
                 (Inl e, h1) \<Rightarrow> (Inl e, h1)
               | (Inr u, h1) \<Rightarrow>
                   (let h2 = RemoveTempDir PlayblastOutputDir self h1
                    in (Inr (), if ShowInViewer then OpenInViewer OutputPath self h2 else h2)))
         else (Inr (), RemoveTempDir PlayblastOutputDir self
                 (LogError self
                    ''Encoding failed. Unsupported encoder ({0}) for container ({1}).''
                    [PStr (Encoder self), PStr (ContainerFormat self)] h)))"

text \<open>\<open>OutputPath\<close>, from the resolved output directory and file name.\<close>

definition final_output_path :: "playblast \<Rightarrow> string \<Rightarrow> string \<Rightarrow> host \<Rightarrow> string" where
  "final_output_path self OutputDir FileName h =
     os_path_normpath h (os_path_join h OutputDir (FileName @ ''.'' @ ContainerFormat self))"

text \<open>The dictionary \<open>Options\<close>: the output name and the settings of the two branches of
  \<open>if self.RequiresFfmpeg():\<close>, with the resolution and the frame range.\<close>

definition capture_options ::
  "playblast \<Rightarrow> string \<Rightarrow> string \<Rightarrow> int \<Rightarrow> bool \<Rightarrow> bool \<Rightarrow> bool \<Rightarrow> pyval \<Rightarrow> pyval
   \<Rightarrow> pyval \<Rightarrow> host \<Rightarrow> pb_options" where
  "capture_options self OutputDir FileName Padding ShowOrnaments ShowInViewer Overwrite
     WH StartFr EndFr h =
     (if RequiresFfmpeg self
      then \<lparr>opt_filename = os_path_normpath h
                            (os_path_join h (OutputDir @ ''/playblast_temp'') FileName),
            opt_widthHeight = WH, opt_percent = 100,
            opt_startTime = StartFr, opt_endTime = EndFr,
            opt_clearCache = True, opt_forceOverwrite = True,
            opt_format = ''image'', opt_compression = ''png'',
            opt_quality = 100, opt_indexFromZero = True,
            opt_framePadding = Padding, opt_showOrnaments = ShowOrnaments,
            opt_viewer = False\<rparr>
      else \<lparr>opt_filename = os_path_normpath h (os_path_join h OutputDir FileName),
            opt_widthHeight = WH, opt_percent = 100,
            opt_startTime = StartFr, opt_endTime = EndFr,
            opt_clearCache = True, opt_forceOverwrite = Overwrite,
            opt_format = ''image'', opt_compression = Encoder self,
            opt_quality = ImageQuality self, opt_indexFromZero = False,
            opt_framePadding = Padding, opt_showOrnaments = ShowOrnaments,
            opt_viewer = ShowInViewer\<rparr>)"

text \<open>From the resolved output directory and file name on (\<open>if self.RequiresFfmpeg():\<close>).\<close>

definition execute_resolved ::
  "playblast \<Rightarrow> string \<Rightarrow> string \<Rightarrow> string \<Rightarrow> int \<Rightarrow> bool \<Rightarrow> bool \<Rightarrow> bool \<Rightarrow> bool \<Rightarrow> host
   \<Rightarrow> (py_error + unit) \<times> host" where
  "execute_resolved self ViewportModelPanel OutputDir FileName Padding Overscan ShowOrnaments
     ShowInViewer Overwrite h =
     (let OutputPath = final_output_path self OutputDir FileName h;
          PlayblastOutputDir = OutputDir @ ''/playblast_temp''
      in if RequiresFfmpeg self \<and> \<not> Overwrite \<and> path_exists (fs h) OutputPath
         then (Inr (), LogError self ''Output file already exists. Eanble overwrite to ignore.''
                         [] h)
         else
           (case GetResolutionWidthHeight self h of
              Inl e \<Rightarrow> (Inl e, h)
            | Inr WH \<Rightarrow>
           (case GetStartEndFrame self h of
              Inl e \<Rightarrow> (Inl e, h)
            | Inr (StartFr, EndFr) \<Rightarrow>
               (let Options = capture_options self OutputDir FileName Padding ShowOrnaments
                                ShowInViewer Overwrite WH StartFr EndFr h;
                    h1 = LogOutput self ''Playblast options: {0}'' [options_pyval Options] h
                in case execute_capture self ViewportModelPanel Overscan Options h1 of
                     (Raise e, h2) \<Rightarrow> (Inl e, h2)
                   | (Return, h2) \<Rightarrow> (Inr (), h2)
                   | (Next PlayblastFailed, h2) \<Rightarrow>
                       if PlayblastFailed then (Inr (), h2)
                       else if RequiresFfmpeg self
                       then execute_encode self PlayblastOutputDir FileName Padding OutputPath
                              StartFr ShowInViewer h2
                       else (Inr (), h2)))))"

definition execute ::
  "playblast \<Rightarrow> string \<Rightarrow> string \<Rightarrow> int \<Rightarrow> bool \<Rightarrow> bool \<Rightarrow> bool \<Rightarrow> bool \<Rightarrow> host
   \<Rightarrow> (py_error + unit) \<times> host" where
  "execute self OutputDir FileName Padding Overscan ShowOrnaments ShowInViewer Overwrite h =
     (case (if RequiresFfmpeg self then ValidateFfmpeg self h else (True, h)) of
        (ffmpeg_ok, h1) \<Rightarrow>
          if \<not> ffmpeg_ok
          then (Inr (), LogError self
                  ''Ffmpeg executable is not configured. See script editor for details.'' [] h1)
          else
            (case GetViewportPanel self h1 of
               (ViewportModelPanel, h2) \<Rightarrow>
                 if \<not> panel_ok ViewportModelPanel
                 then (Inr (), LogError self
                         ''An active viewport is not selected. Select a viewport and retry.''
                         [] h2)
                 else if OutputDir = []
                 then (Inr (), LogError self ''Output directory path not set'' [] h2)
                 else if FileName = []
                 then (Inr (), LogError self ''Output file name not set'' [] h2)
                 else execute_resolved self (panel_name ViewportModelPanel)
                        (ResolveOutputDirectoryPath OutputDir h2)
                        (ResolveOutputFilename FileName h2)
                        (if Padding \<le> 0 then DEFAULT_PADDING else Padding)
                        Overscan ShowOrnaments ShowInViewer Overwrite h2))"

subsection \<open>Construction\<close>

text \<open>
  \<open>__init__\<close> assigns every attribute through its setter. \<open>unset_playblast\<close> stands for
  the object before that; its values are placeholders for attributes that do not exist yet.
\<close>

definition unset_playblast :: playblast where
  "unset_playblast =
     \<lparr>FfmpegPath = [], LogToMaya = True, Camera = None, ResolutionPreset = None,
      WidthHeight = (PNone, PNone), FrameRangePreset = None, StartFrame = PNone,
      EndFrame = PNone, Visibility = PNone, ContainerFormat = [], Encoder = [],
      h264Quality = [], h264Preset = [], ImageQuality = 0\<rparr>"

definition SetFfmpegPath :: "string \<Rightarrow> playblast \<Rightarrow> playblast" where
  "SetFfmpegPath path self = self\<lparr>FfmpegPath := (if path \<noteq> [] then path else [])\<rparr>"

definition SetMayaLoggingEnabled :: "bool \<Rightarrow> playblast \<Rightarrow> playblast" where
  "SetMayaLoggingEnabled Enable self = self\<lparr>LogToMaya := Enable\<rparr>"

definition init :: "string \<Rightarrow> bool \<Rightarrow> host \<Rightarrow> playblast \<times> host" where
  "init path LogMaya h =
     (let s1 = SetMayaLoggingEnabled LogMaya (SetFfmpegPath path unset_playblast);
          (s2, h2) = SetCamera None s1 h;
          (s3, h3) = SetResolution (PStr ''HD 1080'') s2 h2;
          (s4, h4) = SetFrameRange (PStr ''Playback'') s3 h3;
          (s5, h5) = SetEncoding ''mov'' ''h264'' s4 h4;
          (s6, h6) = Seth264Settings ''High'' ''fast'' s5 h5;
          (s7, h7) = SetImageSettings 100 s6 h6
      in SetVisibility (PStr ''Geo'') s7 h7)"

section \<open>A concrete scene\<close>

text \<open>
  A host with one focused model panel looking through \<open>persp\<close>, an encoder binary, a
  24 fps scene with playback range 1 to 100, and a capture primitive that writes one frame
  into the directory of its output name. The object is the one \<open>__init__\<close> builds there.
\<close>

definition demo_fs :: filesys where
  "demo_fs =
     \<lparr>path_exists = (\<lambda>p. p \<in> {''/usr/bin/ffmpeg'', ''/proj/movies'', ''/proj/sound/take1.wav''}),
      path_isdir = (\<lambda>p. p = ''/proj/movies''),
      dir_entries = (\<lambda>d. [])\<rparr>"

definition demo_capture :: "pb_options \<Rightarrow> filesys \<Rightarrow> filesys \<times> bool" where
  "demo_capture opts f =
     (if opt_compression opts = ''png'' \<and> opt_forceOverwrite opts
      then (f\<lparr>path_exists := (path_exists f)(''/proj/movies/playblast_temp'' := True),
               path_isdir := (path_isdir f)(''/proj/movies/playblast_temp'' := True),
               dir_entries := (dir_entries f)
                 (''/proj/movies/playblast_temp'' := [(''shot.0000.png'', True)])\<rparr>, False)
      else (f, False))"

definition demo_host :: host where
  "demo_host =
     \<lparr>panel_with_focus = ''modelPanel4'',
      model_editor_of = (\<lambda>p. if p = ''modelPanel4'' then Some ''modelPanel4'' else None),
      panel_camera = (\<lambda>p. ''persp''),
      editor_flags = (\<lambda>f. if f \<in> set (map snd VIEWPORT_VISIBILITY_LOOKUP)
                            then Some (PBool True) else None),
      list_cameras = [''persp'', ''top'', ''front'', ''side'', ''shotCam''],
      overscan = (\<lambda>c. 13 / 10),
      render_width = 640, render_height = 480,
      render_start_frame = 1, render_end_frame = 10,
      playback_min_time = 1, playback_max_time = 100,
      animation_start_time = 0, animation_end_time = 200,
      time_unit = ''film'',
      py_float = (\<lambda>s. if s = ''120'' then Some 120 else if s = ''0'' then Some 0 else None),
      sound_node = [], sound_filename = [], sound_offset = 0,
      project_root = ''/proj'', scene_short_name = ''shot.ma'',
      os_path_join = (\<lambda>a b. a @ ''/'' @ b),
      os_path_normpath = (\<lambda>p. p),
      os_path_splitext_root = (\<lambda>p. takeWhile (\<lambda>c. c \<noteq> CHR ''.'') p),
      fs = demo_fs,
      playblast_prim = demo_capture,
      ffmpeg_started = True,
      ffmpeg_stderr = [''frame= 1''],
      ffmpeg_prim = (\<lambda>cmd f. f\<lparr>path_exists := (path_exists f)(''/proj/movies/shot.mov'' := True)\<rparr>),
      qdir_match = (\<lambda>pat n. suffix (tl pat) n),
      qdir_filePath = (\<lambda>d n. if take 1 n = ''/'' then n else d @ ''/'' @ n),
      qfile_removable = (\<lambda>p. True),
      quicktime_option_var = None,
      calls = [], maya_display = [], output_logged = []\<rparr>"

definition demo_playblast :: playblast where
  "demo_playblast =
     \<lparr>FfmpegPath = ''/usr/bin/ffmpeg'', LogToMaya = True, Camera = None,
      ResolutionPreset = Some ''HD 1080'', WidthHeight = (PInt 1920, PInt 1080),
      FrameRangePreset = Some ''Playback'', StartFrame = PInt 1, EndFrame = PInt 100,
      Visibility = PList (map (\<lambda>item. PBool (fst item \<in> {''NURBS Surfaces'', ''Polygons''}))
                            VIEWPORT_VISIBILITY_LOOKUP),
      ContainerFormat = ''mov'', Encoder = ''h264'', h264Quality = ''High'',
      h264Preset = ''fast'', ImageQuality = 100\<rparr>"

text \<open>Variations of the scene: a still-image container, a file system where every path
  exists, one where the movie file is already there, and a time unit the code does not
  know.\<close>

definition image_playblast :: playblast where
  "image_playblast = demo_playblast\<lparr>ContainerFormat := ''Image'', Encoder := ''png''\<rparr>"

definition no_encoder_playblast :: playblast where
  "no_encoder_playblast = demo_playblast\<lparr>FfmpegPath := []\<rparr>"

definition crowded_host :: host where
  "crowded_host = demo_host\<lparr>fs := demo_fs\<lparr>path_exists := (\<lambda>p. True)\<rparr>\<rparr>"

definition occupied_host :: host where
  "occupied_host =
     demo_host\<lparr>fs := demo_fs\<lparr>path_exists :=
       (\<lambda>p. p \<in> {''/usr/bin/ffmpeg'', ''/proj/movies'', ''/proj/movies/shot.mov''})\<rparr>\<rparr>"




section \<open>Observations on a run\<close>

text \<open>What a call added to the log and to the host calls, and whether it changed
  nothing but the log.\<close>

fun is_error_line :: "log_line \<Rightarrow> bool" where
  "is_error_line (LogLine sev text args) = (sev = ERROR)"

fun is_warning_line :: "log_line \<Rightarrow> bool" where
  "is_warning_line (LogLine sev text args) = (sev = WARNING)"

definition new_log :: "host \<Rightarrow> host \<Rightarrow> log_line list" where
  "new_log h h' = drop (length (output_logged h)) (output_logged h')"

definition new_calls :: "host \<Rightarrow> host \<Rightarrow> host_call list" where
  "new_calls h h' = drop (length (calls h)) (calls h')"

fun is_playblast_call :: "host_call \<Rightarrow> bool" where
  "is_playblast_call (CallPlayblast opts) = True"
| "is_playblast_call c = False"

text \<open>The calls that change the camera, the visibility flags or the overscan.\<close>

fun is_viewport_call :: "host_call \<Rightarrow> bool" where
  "is_viewport_call (CallLookThrough cam panel) = True"
| "is_viewport_call (CallModelEditorEdit ed flags) = True"
| "is_viewport_call (CallSetAttr attr v) = True"
| "is_viewport_call c = False"

fun is_rmdir_call :: "host_call \<Rightarrow> bool" where
  "is_rmdir_call (CallQDirRmdir p ok) = True"
| "is_rmdir_call c = False"

definition only_logged :: "host \<Rightarrow> host \<Rightarrow> bool" where
  "only_logged h h' =
     (h'\<lparr>maya_display := maya_display h, output_logged := output_logged h\<rparr> = h
      \<and> take (length (output_logged h)) (output_logged h') = output_logged h)"

text \<open>A later state of the same scene: the calls and the log have only grown, and nothing
  differs but them, the file system, the camera, the visibility flags and the overscan.\<close>

definition evolves :: "host \<Rightarrow> host \<Rightarrow> bool" where
  "evolves h h' =
     (h'\<lparr>calls := calls h, maya_display := maya_display h, output_logged := output_logged h,
         fs := fs h, panel_camera := panel_camera h, editor_flags := editor_flags h,
         overscan := overscan h\<rparr> = h
      \<and> prefix (calls h) (calls h') \<and> prefix (output_logged h) (output_logged h'))"

definition same_viewport :: "host \<Rightarrow> host \<Rightarrow> bool" where
  "same_viewport h h' =
     (panel_camera h' = panel_camera h \<and> editor_flags h' = editor_flags h
      \<and> overscan h' = overscan h)"

text \<open>A part of a run that leaves the viewport alone and does not capture.\<close>

definition offstage :: "host \<Rightarrow> host \<Rightarrow> bool" where
  "offstage h h' =
     (evolves h h' \<and> same_viewport h h'
      \<and> filter is_viewport_call (new_calls h h') = []
      \<and> filter is_playblast_call (new_calls h h') = [])"

text \<open>The visibility flags of the viewport as \<open>CreateViewportVisibilityFlags\<close> builds
  them from \<open>GetViewportVisibility\<close>.\<close>

definition viewport_flags :: "host \<Rightarrow> (string \<times> pyval) list" where
  "viewport_flags h =
     zip (map snd VIEWPORT_VISIBILITY_LOOKUP)
       (map (\<lambda>Item. the (editor_flags h (snd Item))) VIEWPORT_VISIBILITY_LOOKUP)"

text \<open>A model panel has the focus (\<open>GetViewportPanel\<close> returns a panel).\<close>

definition viewport_active :: "host \<Rightarrow> bool" where
  "viewport_active h =
     (model_editor_of h (panel_with_focus h) \<noteq> None \<and> panel_with_focus h \<noteq> [])"

text \<open>Every visibility flag of the lookup table can be queried.\<close>

definition flags_readable :: "host \<Rightarrow> bool" where
  "flags_readable h =
     (those (map (\<lambda>Item. editor_flags h (snd Item)) VIEWPORT_VISIBILITY_LOOKUP) \<noteq> None)"

text \<open>The stored visibility is empty (the viewport's own flags are used) or has an entry
  for every row of the lookup table.\<close>

fun visibility_covers :: "pyval \<Rightarrow> bool" where
  "visibility_covers (PList xs) = (xs = [] \<or> length VIEWPORT_VISIBILITY_LOOKUP \<le> length xs)"
| "visibility_covers (PTuple xs) = (xs = [] \<or> length VIEWPORT_VISIBILITY_LOOKUP \<le> length xs)"
| "visibility_covers v = (\<not> truthy v)"

text \<open>The visibility vector \<open>GetVisibility\<close> returns where the flags can be queried.\<close>

definition capture_visibility :: "playblast \<Rightarrow> host \<Rightarrow> pyval" where
  "capture_visibility self h =
     (if \<not> truthy (Visibility self)
      then PList (map (\<lambda>Item. the (editor_flags h (snd Item))) VIEWPORT_VISIBILITY_LOOKUP)
      else Visibility self)"

text \<open>The camera \<open>execute\<close> captures through: the stored one, else the active one.\<close>

definition capture_camera :: "playblast \<Rightarrow> host \<Rightarrow> string" where
  "capture_camera self h =
     (case Camera self of
        None \<Rightarrow> panel_camera h (panel_with_focus h)
      | Some c \<Rightarrow> if c = [] then panel_camera h (panel_with_focus h) else c)"

text \<open>The calls of the \<open>finally\<close> block, with the values the viewport had in \<open>h\<close>.\<close>

definition restore_calls :: "bool \<Rightarrow> string \<Rightarrow> host \<Rightarrow> host_call list" where
  "restore_calls Overscan Cam h =
     (if Overscan then [] else [CallSetAttr (Cam @ ''.overscan'') (overscan h Cam)])
     @ [CallLookThrough (panel_camera h (panel_with_focus h)) (panel_with_focus h),
        CallModelEditorEdit (the (model_editor_of h (panel_with_focus h))) (viewport_flags h)]"

text \<open>The stored preset names are ones the getters resolve (the setters store no other).\<close>

definition presets_known :: "playblast \<Rightarrow> bool" where
  "presets_known self =
     ((case ResolutionPreset self of
         None \<Rightarrow> True
       | Some p \<Rightarrow> p = [] \<or> p \<in> set (map fst RESOLUTION_LOOKUP))
      \<and> (case FrameRangePreset self of
            None \<Rightarrow> True
          | Some p \<Rightarrow> p = [] \<or> p \<in> set FRAME_RANGE_PRESETS))"

text \<open>The values \<open>execute\<close> reads from the getters, and the options it captures with.\<close>

definition run_resolution :: "playblast \<Rightarrow> host \<Rightarrow> pyval" where
  "run_resolution self h = (case GetResolutionWidthHeight self h of Inr wh \<Rightarrow> wh | Inl e \<Rightarrow> PNone)"

definition run_start :: "playblast \<Rightarrow> host \<Rightarrow> pyval" where
  "run_start self h = (case GetStartEndFrame self h of Inr se \<Rightarrow> fst se | Inl e \<Rightarrow> PNone)"

definition run_end :: "playblast \<Rightarrow> host \<Rightarrow> pyval" where
  "run_end self h = (case GetStartEndFrame self h of Inr se \<Rightarrow> snd se | Inl e \<Rightarrow> PNone)"

definition run_padding :: "int \<Rightarrow> int" where
  "run_padding Padding = (if Padding \<le> 0 then DEFAULT_PADDING else Padding)"

definition run_options ::
  "playblast \<Rightarrow> string \<Rightarrow> string \<Rightarrow> int \<Rightarrow> bool \<Rightarrow> bool \<Rightarrow> bool \<Rightarrow> host \<Rightarrow> pb_options" where
  "run_options self OutputDir FileName Padding ShowOrnaments ShowInViewer Overwrite h =
     capture_options self (ResolveOutputDirectoryPath OutputDir h)
       (ResolveOutputFilename FileName h) (run_padding Padding) ShowOrnaments ShowInViewer
       Overwrite (run_resolution self h) (run_start self h) (run_end self h) h"

text \<open>The checks at the top of \<open>execute\<close> pass.\<close>

definition prechecks_pass :: "playblast \<Rightarrow> string \<Rightarrow> string \<Rightarrow> host \<Rightarrow> bool" where
  "prechecks_pass self OutputDir FileName h =
     ((if RequiresFfmpeg self
       then FfmpegPath self \<noteq> [] \<and> path_exists (fs h) (FfmpegPath self)
            \<and> \<not> path_isdir (fs h) (FfmpegPath self)
       else True)
      \<and> viewport_active h \<and> OutputDir \<noteq> [] \<and> FileName \<noteq> [])"

text \<open>The output file is in the way: the container needs the encoder, overwrite is off
  and the file exists.\<close>

definition output_in_the_way :: "playblast \<Rightarrow> string \<Rightarrow> string \<Rightarrow> bool \<Rightarrow> host \<Rightarrow> bool" where
  "output_in_the_way self OutputDir FileName Overwrite h =
     (RequiresFfmpeg self \<and> \<not> Overwrite
      \<and> path_exists (fs h)
            (final_output_path self (ResolveOutputDirectoryPath OutputDir h)
               (ResolveOutputFilename FileName h) h))"

fun returns :: "py_error + 'a \<Rightarrow> bool" where
  "returns (Inr v) = True"
| "returns (Inl e) = False"

text \<open>The run gets as far as calling the capture primitive.\<close>

definition reaches_capture :: "playblast \<Rightarrow> string \<Rightarrow> string \<Rightarrow> bool \<Rightarrow> host \<Rightarrow> bool" where
  "reaches_capture self OutputDir FileName Overwrite h =
     (prechecks_pass self OutputDir FileName h
      \<and> \<not> output_in_the_way self OutputDir FileName Overwrite h
      \<and> returns (GetResolutionWidthHeight self h)
      \<and> returns (GetStartEndFrame self h)
      \<and> capture_camera self h \<in> set (list_cameras h)
      \<and> flags_readable h
      \<and> returns (CreateViewportVisibilityFlags (capture_visibility self h)))"

text \<open>\<open>Encodeh264\<close> returns: none of its three sources of an exception raises.\<close>

definition encode_returns :: "playblast \<Rightarrow> pyval \<Rightarrow> host \<Rightarrow> bool" where
  "encode_returns self StartFr h =
     (case GetFrameRate h of
        Inl e \<Rightarrow> False
      | Inr rate \<Rightarrow>
          (case audio_input StartFr rate h of
             Inl e \<Rightarrow> False
           | Inr a \<Rightarrow> map_of H264_QUALITIES (h264Quality self) \<noteq> None))"

definition error_reported :: "host \<Rightarrow> host \<Rightarrow> bool" where
  "error_reported h h' = (only_logged h h' \<and> list_ex is_error_line (new_log h h'))"

text \<open>The defining equations of the model, for evaluating it on a concrete scene.\<close>

lemmas setting_defs =
  SetCamera_def SetResolution_def PresetToResolution_def valid_resolution_def entry_def
  GetResolutionWidthHeight_def SetFrameRange_def ResolveFrameRange_def PresetToFrameRange_def
  frame_range_preset_of_def GetStartEndFrame_def SetVisibility_def PresetToVisibility_def
  GetVisibility_def SetEncoding_def Seth264Settings_def SetImageSettings_def
  RESOLUTION_LOOKUP_def FRAME_RANGE_PRESETS_def VIDEO_ENCODER_LOOKUP_def H264_QUALITIES_def
  H264_PRESETS_def VIEWPORT_VISIBILITY_PRESETS_def py_int_of_float_def

lemmas run_defs =
  execute_def execute_resolved_def execute_capture_def mutate_and_capture_def
  capture_and_restore_def restore_viewport_def try_playblast_def set_overscan_def
  execute_encode_def Encodeh264_def ffmpeg_command_def audio_input_def GetAudioAttributes_def
  GetAudioOffsetInSec_def GetFrameRate_def ExecuteFfmpegCommand_def RemoveTempDir_def
  qdir_remove_def qdir_rmdir_def OpenInViewer_def RequiresFfmpeg_def ValidateFfmpeg_def
  GetViewportPanel_def panel_ok_def panel_name_def GetViewportVisibility_def
  SetViewportVisibility_def CreateViewportVisibilityFlags_def GetActiveCamera_def
  SetActiveCamera_def ResolveOutputDirectoryPath_def ResolveOutputFilename_def
  GetProjectDirPath_def GetSceneName_def final_output_path_def capture_options_def
  py_contains_def py_str_int_def
  DEFAULT_PADDING_def options_pyval_def LogError_def LogWarning_def LogOutput_def emit_log_def


section \<open>Properties of the settings\<close>

text \<open>
  C9. For every explicit pair \<open>(w, h)\<close> of integers with \<open>w > 0\<close> and \<open>h > 0\<close>,
  \<open>SetResolution((w, h))\<close> followed by \<open>GetResolutionWidthHeight()\<close> returns exactly
  \<open>(w, h)\<close>, whatever the object held before and whatever the host state is at the
  two calls.
\<close>

theorem SetResolution_roundtrip:
  assumes "0 < w" and "0 < ht"
  shows "GetResolutionWidthHeight (fst (SetResolution (PTuple [PInt w, PInt ht]) self h)) h'
         = Inr (PTuple [PInt w, PInt ht])"
  using assms
  by (simp add: SetResolution_def PresetToResolution_def valid_resolution_def entry_def
      GetResolutionWidthHeight_def Let_def)

theorem SetResolution_roundtrip_witness:
  "(0::int) < 800 \<and> (0::int) < 600 \<and>
   GetResolutionWidthHeight
     (fst (SetResolution (PTuple [PInt 800, PInt 600]) demo_playblast demo_host)) demo_host
   = Inr (PTuple [PInt 800, PInt 600])"
  using SetResolution_roundtrip [of 800 600 demo_playblast demo_host demo_host] by simp

text \<open>
  C8. A stored preset name is resolved against the host when the getter is called, not when
  the setter was: \<open>SetResolution("Render")\<close> and \<open>SetFrameRange("Playback")\<close> store the
  names; with \<open>"Render"\<close> stored, \<open>GetResolutionWidthHeight\<close> returns the render-settings
  width and height of the host it is called in; with \<open>"Playback"\<close> stored,
  \<open>GetStartEndFrame\<close> returns the playback range of the host it is called in, \<open>(1, 100)\<close>
  for the range 1 to 100; likewise for \<open>"Render"\<close> and \<open>"Animation"\<close> frame ranges.
\<close>

theorem presets_resolved_at_call_time:
  "ResolutionPreset (fst (SetResolution (PStr ''Render'') self0 h0)) = Some ''Render''
   \<and> FrameRangePreset (fst (SetFrameRange (PStr ''Playback'') self0 h0)) = Some ''Playback''
   \<and> (ResolutionPreset self = Some ''Render'' \<longrightarrow>
        GetResolutionWidthHeight self h
        = Inr (PTuple [PInt (render_width h), PInt (render_height h)]))
   \<and> (FrameRangePreset self = Some ''Playback'' \<longrightarrow>
        GetStartEndFrame self h
        = Inr (PInt (py_int_of_float (playback_min_time h)),
               PInt (py_int_of_float (playback_max_time h))))
   \<and> (FrameRangePreset self = Some ''Playback'' \<and> playback_min_time h = 1
        \<and> playback_max_time h = 100 \<longrightarrow>
        GetStartEndFrame self h = Inr (PInt 1, PInt 100))
   \<and> (FrameRangePreset self = Some ''Render'' \<longrightarrow>
        GetStartEndFrame self h
        = Inr (PInt (py_int_of_float (render_start_frame h)),
               PInt (py_int_of_float (render_end_frame h))))
   \<and> (FrameRangePreset self = Some ''Animation'' \<longrightarrow>
        GetStartEndFrame self h
        = Inr (PInt (py_int_of_float (animation_start_time h)),
               PInt (py_int_of_float (animation_end_time h))))"
  by (simp add: SetResolution_def PresetToResolution_def valid_resolution_def entry_def
      GetResolutionWidthHeight_def Let_def SetFrameRange_def ResolveFrameRange_def
      PresetToFrameRange_def frame_range_preset_of_def FRAME_RANGE_PRESETS_def
      GetStartEndFrame_def py_int_of_float_def split: prod.splits)

text \<open>Set in the concrete scene (render size 640 by 480, playback 1 to 100) and read after
  the scene changed.\<close>

theorem presets_resolved_at_call_time_witness:
  "GetResolutionWidthHeight (fst (SetResolution (PStr ''Render'') demo_playblast demo_host))
     (demo_host\<lparr>render_width := 800, render_height := 600\<rparr>)
   = Inr (PTuple [PInt 800, PInt 600])
   \<and> GetStartEndFrame (fst (SetFrameRange (PStr ''Playback'') demo_playblast demo_host)) demo_host
     = Inr (PInt 1, PInt 100)
   \<and> GetStartEndFrame (fst (SetFrameRange (PStr ''Playback'') demo_playblast demo_host))
       (demo_host\<lparr>playback_min_time := 10, playback_max_time := 20\<rparr>)
     = Inr (PInt 10, PInt 20)"
  using presets_resolved_at_call_time
     [of demo_playblast demo_host "fst (SetResolution (PStr ''Render'') demo_playblast demo_host)"
         "demo_host\<lparr>render_width := 800, render_height := 600\<rparr>"]
    presets_resolved_at_call_time
     [of demo_playblast demo_host "fst (SetFrameRange (PStr ''Playback'') demo_playblast demo_host)"
         "demo_host"]
    presets_resolved_at_call_time
     [of demo_playblast demo_host "fst (SetFrameRange (PStr ''Playback'') demo_playblast demo_host)"
         "demo_host\<lparr>playback_min_time := 10, playback_max_time := 20\<rparr>"]
  by (simp add: demo_host_def py_int_of_float_def)

text \<open>
  The rejecting branches of the setters.
\<close>

lemma error_reported_LogError: "error_reported h (LogError self text args h)"
  by (simp add: error_reported_def only_logged_def new_log_def LogError_def emit_log_def)

lemma PresetToResolution_pair:
  "PresetToResolution (PTuple xs) h = Inl (RuntimeError ''Invalid resolution preset'')"
  "PresetToResolution (PList xs) h = Inl (RuntimeError ''Invalid resolution preset'')"
  by (simp_all add: PresetToResolution_def)

lemma Render_in_LOOKUP: "''Render'' \<in> set (map fst RESOLUTION_LOOKUP)"
  by (simp add: RESOLUTION_LOOKUP_def)

lemma PresetToResolution_unknown:
  assumes "name \<notin> set (map fst RESOLUTION_LOOKUP)"
  shows "PresetToResolution (PStr name) h = Inl (RuntimeError ''Invalid resolution preset'')"
proof -
  from assms Render_in_LOOKUP have "name \<noteq> ''Render''" by metis
  moreover from assms have "map_of RESOLUTION_LOOKUP name = None"
    by (simp add: map_of_eq_None_iff)
  ultimately show ?thesis by (simp add: PresetToResolution_def)
qed

lemma SetResolution_invalid:
  assumes "PresetToResolution R h = Inl e"
    and "\<not> valid_resolution R \<or> int_value (entry R 0) \<le> 0 \<or> int_value (entry R 1) \<le> 0"
  shows "(fst (SetResolution R self h))\<lparr>ResolutionPreset := ResolutionPreset self\<rparr> = self
         \<and> error_reported h (snd (SetResolution R self h))"
  using assms by (auto simp add: SetResolution_def Let_def error_reported_LogError)

lemma valid_resolution_pair:
  "valid_resolution (PTuple [a, b]) = (isinstance_int a \<and> isinstance_int b)"
  "valid_resolution (PList [a, b]) = (isinstance_int a \<and> isinstance_int b)"
  by (simp_all add: valid_resolution_def)

lemma valid_resolution_str: "\<not> valid_resolution (PStr name)"
  by (simp add: valid_resolution_def)

lemma entry_pair:
  "entry (PTuple [a, b]) 0 = a" "entry (PTuple [a, b]) 1 = b"
  "entry (PList [a, b]) 0 = a" "entry (PList [a, b]) 1 = b"
  by (simp_all add: entry_def)

lemma SetResolution_rejects:
  assumes "(w \<le> 0 \<or> ht \<le> 0) \<and> R \<in> {PTuple [PInt w, PInt ht], PList [PInt w, PInt ht]}
    \<or> (\<not> isinstance_int a \<or> \<not> isinstance_int b) \<and> R \<in> {PTuple [a, b], PList [a, b]}
    \<or> name \<notin> set (map fst RESOLUTION_LOOKUP) \<and> R = PStr name"
  shows "(fst (SetResolution R self h))\<lparr>ResolutionPreset := ResolutionPreset self\<rparr> = self
   \<and> error_reported h (snd (SetResolution R self h))"
proof -
  from assms have p: "PresetToResolution R h = Inl (RuntimeError ''Invalid resolution preset'')"
    using PresetToResolution_pair PresetToResolution_unknown by auto
  from assms have
    "\<not> valid_resolution R \<or> int_value (entry R 0) \<le> 0 \<or> int_value (entry R 1) \<le> 0"
    using valid_resolution_pair valid_resolution_str entry_pair by auto
  with p show ?thesis by (rule SetResolution_invalid)
qed


lemma SetCamera_missing:
  assumes "c \<noteq> []" and "c \<notin> set (list_cameras h)"
  shows "fst (SetCamera (Some c) self h) = self\<lparr>Camera := None\<rparr>
         \<and> error_reported h (snd (SetCamera (Some c) self h))"
  using assms by (simp add: SetCamera_def error_reported_LogError)

lemma SetEncoding_rejects:
  assumes "case map_of VIDEO_ENCODER_LOOKUP C of None \<Rightarrow> True | Some encs \<Rightarrow> E \<notin> set encs"
  shows "fst (SetEncoding C E self h) = self \<and> error_reported h (snd (SetEncoding C E self h))"
  using assms by (simp add: SetEncoding_def error_reported_LogError split: option.splits)

lemma Seth264Settings_rejects:
  assumes "Q \<notin> set (map fst H264_QUALITIES) \<or> P \<notin> set H264_PRESETS"
  shows "fst (Seth264Settings Q P self h) = self
         \<and> error_reported h (snd (Seth264Settings Q P self h))"
  using assms by (auto simp add: Seth264Settings_def error_reported_LogError)

lemma SetImageSettings_rejects:
  assumes "q \<le> 0 \<or> 100 < q"
  shows "fst (SetImageSettings q self h) = self
         \<and> error_reported h (snd (SetImageSettings q self h))"
  using assms by (auto simp add: SetImageSettings_def error_reported_LogError)

lemma SetVisibility_rejects:
  assumes "vname \<noteq> []" and "vname \<notin> set (map fst VIEWPORT_VISIBILITY_PRESETS)"
  shows "fst (SetVisibility (PStr vname) self h) = self
         \<and> error_reported h (snd (SetVisibility (PStr vname) self h))"
proof -
  from assms(2) have "map_of VIEWPORT_VISIBILITY_PRESETS vname = None"
    by (simp add: map_of_eq_None_iff)
  with assms(1) show ?thesis
    by (simp add: SetVisibility_def PresetToVisibility_def error_reported_LogError)
qed

lemma Render_in_PRESETS:
  "''Render'' \<in> set FRAME_RANGE_PRESETS" "''Playback'' \<in> set FRAME_RANGE_PRESETS"
  "''Animation'' \<in> set FRAME_RANGE_PRESETS"
  by (simp_all add: FRAME_RANGE_PRESETS_def)

lemma SetFrameRange_rejects:
  assumes "fname \<notin> set FRAME_RANGE_PRESETS"
  shows "fst (SetFrameRange (PStr fname) self h) = self
         \<and> error_reported h (snd (SetFrameRange (PStr fname) self h))"
proof -
  from assms Render_in_PRESETS
  have "fname \<noteq> ''Render''" "fname \<noteq> ''Playback''" "fname \<noteq> ''Animation''" by metis+
  then show ?thesis
    by (simp add: SetFrameRange_def ResolveFrameRange_def PresetToFrameRange_def
        error_reported_LogError)
qed

text \<open>
  C2, as amended. An invalid input makes the setter report an error and change nothing but
  the log, with two exceptions. \<open>SetResolution\<close>, given a pair with a non-positive entry,
  a pair with an entry that is not an \<open>int\<close>, or an unrecognized preset name, keeps the
  stored width and height and every other attribute, but nothing is said of the stored
  preset name. \<open>SetCamera\<close> with the name of a camera that does not exist resets the stored
  camera to \<open>None\<close> (the active camera). \<open>SetEncoding\<close> with an unknown container or an
  encoder the container does not allow, \<open>Seth264Settings\<close> with an unknown quality or
  preset, \<open>SetImageSettings\<close> with a quality outside 1 to 100, \<open>SetVisibility\<close> with an
  unknown preset name and \<open>SetFrameRange\<close> with an unknown preset name leave the object as
  it was.
\<close>

theorem invalid_settings_rejected:
  "(((w \<le> 0 \<or> ht \<le> 0) \<and> R \<in> {PTuple [PInt w, PInt ht], PList [PInt w, PInt ht]}
      \<or> (\<not> isinstance_int a \<or> \<not> isinstance_int b) \<and> R \<in> {PTuple [a, b], PList [a, b]}
      \<or> name \<notin> set (map fst RESOLUTION_LOOKUP) \<and> R = PStr name) \<longrightarrow>
     (fst (SetResolution R self h))\<lparr>ResolutionPreset := ResolutionPreset self\<rparr> = self
     \<and> error_reported h (snd (SetResolution R self h)))
   \<and> (c \<noteq> [] \<and> c \<notin> set (list_cameras h) \<longrightarrow>
        fst (SetCamera (Some c) self h) = self\<lparr>Camera := None\<rparr>
        \<and> error_reported h (snd (SetCamera (Some c) self h)))
   \<and> ((case map_of VIDEO_ENCODER_LOOKUP C of None \<Rightarrow> True | Some encs \<Rightarrow> E \<notin> set encs) \<longrightarrow>
        fst (SetEncoding C E self h) = self
        \<and> error_reported h (snd (SetEncoding C E self h)))
   \<and> (Q \<notin> set (map fst H264_QUALITIES) \<or> P \<notin> set H264_PRESETS \<longrightarrow>
        fst (Seth264Settings Q P self h) = self
        \<and> error_reported h (snd (Seth264Settings Q P self h)))
   \<and> (q \<le> 0 \<or> 100 < q \<longrightarrow>
        fst (SetImageSettings q self h) = self
        \<and> error_reported h (snd (SetImageSettings q self h)))
   \<and> (vname \<noteq> [] \<and> vname \<notin> set (map fst VIEWPORT_VISIBILITY_PRESETS) \<longrightarrow>
        fst (SetVisibility (PStr vname) self h) = self
        \<and> error_reported h (snd (SetVisibility (PStr vname) self h)))
   \<and> (fname \<notin> set FRAME_RANGE_PRESETS \<longrightarrow>
        fst (SetFrameRange (PStr fname) self h) = self
        \<and> error_reported h (snd (SetFrameRange (PStr fname) self h)))"
  using SetResolution_rejects [where w = w and ht = ht and R = R and a = a and b = b
      and name = name and self = self and h = h]
    SetCamera_missing [where c = c and h = h and self = self]
    SetEncoding_rejects [where C = C and E = E and self = self and h = h]
    Seth264Settings_rejects [where Q = Q and P = P and self = self and h = h]
    SetImageSettings_rejects [where q = q and self = self and h = h]
    SetVisibility_rejects [where vname = vname and self = self and h = h]
    SetFrameRange_rejects [where fname = fname and self = self and h = h]
  by blast

theorem invalid_settings_rejected_witness:
  "(fst (SetResolution (PTuple [PInt 0, PInt 480]) demo_playblast demo_host))
      \<lparr>ResolutionPreset := ResolutionPreset demo_playblast\<rparr> = demo_playblast
   \<and> error_reported demo_host (snd (SetResolution (PTuple [PInt 0, PInt 480]) demo_playblast demo_host))
   \<and> fst (SetCamera (Some ''ghost'') demo_playblast demo_host) = demo_playblast\<lparr>Camera := None\<rparr>
   \<and> error_reported demo_host (snd (SetCamera (Some ''ghost'') demo_playblast demo_host))
   \<and> fst (SetEncoding ''Image'' ''h264'' demo_playblast demo_host) = demo_playblast
   \<and> error_reported demo_host (snd (SetEncoding ''Image'' ''h264'' demo_playblast demo_host))
   \<and> fst (Seth264Settings ''Ultra'' ''fast'' demo_playblast demo_host) = demo_playblast
   \<and> error_reported demo_host (snd (Seth264Settings ''Ultra'' ''fast'' demo_playblast demo_host))
   \<and> fst (SetImageSettings 0 demo_playblast demo_host) = demo_playblast
   \<and> error_reported demo_host (snd (SetImageSettings 0 demo_playblast demo_host))
   \<and> fst (SetVisibility (PStr ''Everything'') demo_playblast demo_host) = demo_playblast
   \<and> error_reported demo_host (snd (SetVisibility (PStr ''Everything'') demo_playblast demo_host))
   \<and> fst (SetFrameRange (PStr ''Timeline'') demo_playblast demo_host) = demo_playblast
   \<and> error_reported demo_host (snd (SetFrameRange (PStr ''Timeline'') demo_playblast demo_host))"
proof -
  have "''ghost'' \<notin> set (list_cameras demo_host)"
    by (simp add: demo_host_def)
  moreover have "case map_of VIDEO_ENCODER_LOOKUP ''Image'' of None \<Rightarrow> True
                 | Some encs \<Rightarrow> ''h264'' \<notin> set encs"
    by (simp add: VIDEO_ENCODER_LOOKUP_def)
  moreover have "''Ultra'' \<notin> set (map fst H264_QUALITIES)"
    by (simp add: H264_QUALITIES_def)
  moreover have "''Everything'' \<notin> set (map fst VIEWPORT_VISIBILITY_PRESETS)"
    by (simp add: VIEWPORT_VISIBILITY_PRESETS_def)
  moreover have "''Timeline'' \<notin> set FRAME_RANGE_PRESETS"
    by (simp add: FRAME_RANGE_PRESETS_def)
  ultimately show ?thesis
    using invalid_settings_rejected [where w = 0 and ht = 480
        and R = "PTuple [PInt 0, PInt 480]" and a = PNone and b = PNone and name = "''4K''"
        and self = demo_playblast and h = demo_host and c = "''ghost''" and C = "''Image''"
        and E = "''h264''" and Q = "''Ultra''" and P = "''fast''" and q = 0
        and vname = "''Everything''" and fname = "''Timeline''"]
    by simp
qed

text \<open>
  C2 as stated fails: a nonexistent camera name replaces a stored camera by \<open>None\<close>; and
  after \<open>"Render"\<close> was stored, an invalid pair makes the getter fall back from the live
  render size to the pair recorded when the preset was set.
\<close>

theorem invalid_setting_changes_state:
  "''ghost'' \<notin> set (list_cameras demo_host)
   \<and> Camera (fst (SetCamera (Some ''shotCam'') demo_playblast demo_host)) = Some ''shotCam''
   \<and> Camera (fst (SetCamera (Some ''ghost'')
                (fst (SetCamera (Some ''shotCam'') demo_playblast demo_host)) demo_host)) = None
   \<and> GetResolutionWidthHeight (fst (SetResolution (PStr ''Render'') demo_playblast demo_host))
       (demo_host\<lparr>render_width := 800, render_height := 600\<rparr>)
     = Inr (PTuple [PInt 800, PInt 600])
   \<and> GetResolutionWidthHeight
       (fst (SetResolution (PTuple [PInt 0, PInt 0])
               (fst (SetResolution (PStr ''Render'') demo_playblast demo_host))
               (demo_host\<lparr>render_width := 800, render_height := 600\<rparr>)))
       (demo_host\<lparr>render_width := 800, render_height := 600\<rparr>)
     = Inr (PTuple [PInt 640, PInt 480])"
  by code_simp


section \<open>Visibility vectors\<close>

lemma build_flags_short:
  "i \<le> length xs \<Longrightarrow> length xs < i + length items \<Longrightarrow>
   build_flags items (PList xs) i acc = Inl IndexError
   \<and> build_flags items (PTuple xs) i acc = Inl IndexError"
proof (induction items arbitrary: i acc)
  case Nil
  then show ?case by simp
next
  case (Cons item items)
  show ?case
  proof (cases "i < length xs")
    case True
    with Cons.prems Cons.IH [of "Suc i"] show ?thesis by simp
  next
    case False
    then show ?thesis by simp
  qed
qed

lemma build_flags_long:
  "i + length items \<le> length xs \<Longrightarrow>
   build_flags items (PList xs) i acc
     = Inr (acc @ zip (map snd items) (take (length items) (drop i xs)))
   \<and> build_flags items (PTuple xs) i acc
     = Inr (acc @ zip (map snd items) (take (length items) (drop i xs)))"
proof (induction items arbitrary: i acc)
  case Nil
  then show ?case by simp
next
  case (Cons item items)
  from Cons.prems have lt: "i < length xs" by simp
  then have d: "drop i xs = xs ! i # drop (Suc i) xs"
    by (simp add: Cons_nth_drop_Suc)
  from Cons.prems Cons.IH [of "Suc i"] lt show ?case
    by (simp add: d)
qed

lemma length_LOOKUP: "length VIEWPORT_VISIBILITY_LOOKUP = 37"
  by (simp add: VIEWPORT_VISIBILITY_LOOKUP_def)

text \<open>A run in the concrete scene with a stored visibility vector of one entry.\<close>

lemma short_visibility_run:
  "fst (execute (fst (SetVisibility (PList [PBool True]) demo_playblast demo_host))
          ''{project}/movies'' ''{scene}'' 4 False True True False demo_host) = Inl IndexError"
  by code_simp


text \<open>
  C10. \<open>SetVisibility\<close> stores any non-empty list or tuple as it is, whatever its length;
  the lookup table has 37 entries; for a vector shorter than that,
  \<open>CreateViewportVisibilityFlags\<close> raises IndexError; and \<open>GetVisibility\<close> hands the stored
  vector to it during \<open>execute\<close>.
\<close>

theorem SetVisibility_unchecked_length:
  "(xs \<noteq> [] \<longrightarrow> SetVisibility (PList xs) self h = (self\<lparr>Visibility := PList xs\<rparr>, h))
   \<and> (xs \<noteq> [] \<longrightarrow> SetVisibility (PTuple xs) self h = (self\<lparr>Visibility := PTuple xs\<rparr>, h))
   \<and> length VIEWPORT_VISIBILITY_LOOKUP = 37
   \<and> (length xs < length VIEWPORT_VISIBILITY_LOOKUP \<longrightarrow>
        CreateViewportVisibilityFlags (PList xs) = Inl IndexError
        \<and> CreateViewportVisibilityFlags (PTuple xs) = Inl IndexError)
   \<and> (xs \<noteq> [] \<and> (Visibility self = PList xs \<or> Visibility self = PTuple xs) \<longrightarrow>
        GetVisibility self h = (Visibility self, h))"
proof -
  have a: "xs \<noteq> [] \<longrightarrow> SetVisibility (PList xs) self h = (self\<lparr>Visibility := PList xs\<rparr>, h)"
    by (simp add: SetVisibility_def)
  have b: "xs \<noteq> [] \<longrightarrow> SetVisibility (PTuple xs) self h = (self\<lparr>Visibility := PTuple xs\<rparr>, h)"
    by (simp add: SetVisibility_def)
  have c: "length xs < length VIEWPORT_VISIBILITY_LOOKUP \<longrightarrow>
        CreateViewportVisibilityFlags (PList xs) = Inl IndexError
        \<and> CreateViewportVisibilityFlags (PTuple xs) = Inl IndexError"
    using build_flags_short [of 0 xs VIEWPORT_VISIBILITY_LOOKUP "[]"]
    by (simp add: CreateViewportVisibilityFlags_def)
  have d: "xs \<noteq> [] \<and> (Visibility self = PList xs \<or> Visibility self = PTuple xs) \<longrightarrow>
        GetVisibility self h = (Visibility self, h)"
    by (auto simp: GetVisibility_def)
  from a b c d length_LOOKUP show ?thesis by blast
qed

theorem SetVisibility_unchecked_length_witness:
  "SetVisibility (PList [PBool True]) demo_playblast demo_host
     = (demo_playblast\<lparr>Visibility := PList [PBool True]\<rparr>, demo_host)
   \<and> CreateViewportVisibilityFlags (PList [PBool True]) = Inl IndexError
   \<and> GetVisibility (demo_playblast\<lparr>Visibility := PList [PBool True]\<rparr>) demo_host
     = (PList [PBool True], demo_host)
   \<and> fst (execute (fst (SetVisibility (PList [PBool True]) demo_playblast demo_host))
            ''{project}/movies'' ''{scene}'' 4 False True True False demo_host)
     = Inl IndexError"
  using SetVisibility_unchecked_length
          [where xs = "[PBool True]" and self = demo_playblast and h = demo_host]
        SetVisibility_unchecked_length
          [where xs = "[PBool True]" and h = demo_host
             and self = "demo_playblast\<lparr>Visibility := PList [PBool True]\<rparr>"]
        short_visibility_run
  by simp

section \<open>The encoder command\<close>

lemma wait_ffmpeg_eq:
  "wait_ffmpeg self chunks h =
     h\<lparr>maya_display := (if LogToMaya self
                          then maya_display h @ map (\<lambda>c. LogLine INFO c []) chunks
                          else maya_display h),
       output_logged := output_logged h @ map (\<lambda>c. LogLine INFO c []) chunks\<rparr>"
  by (induction chunks arbitrary: h) (simp_all add: LogOutput_def emit_log_def)




section \<open>Aborting before anything is touched\<close>

lemma error_reported_LogError2:
  "error_reported h (LogError self t a (LogError self t' a' h))"
  by (simp add: error_reported_def only_logged_def new_log_def LogError_def emit_log_def)

lemma execute_precheck_abort:
  assumes "RequiresFfmpeg self \<and> (FfmpegPath self = [] \<or> \<not> path_exists (fs h) (FfmpegPath self)
              \<or> path_isdir (fs h) (FfmpegPath self))
           \<or> model_editor_of h (panel_with_focus h) = None \<or> panel_with_focus h = []
           \<or> OutputDir = [] \<or> FileName = []"
  shows "fst (execute self OutputDir FileName Padding Overscan ShowOrnaments ShowInViewer
                Overwrite h) = Inr ()
         \<and> error_reported h (snd (execute self OutputDir FileName Padding Overscan ShowOrnaments
                ShowInViewer Overwrite h))"
  using assms
  by (auto simp add: execute_def ValidateFfmpeg_def GetViewportPanel_def panel_ok_def
      error_reported_LogError error_reported_LogError2 split: option.splits)

lemma execute_prechecks_pass:
  assumes "\<not> (RequiresFfmpeg self \<and> (FfmpegPath self = [] \<or> \<not> path_exists (fs h) (FfmpegPath self)
              \<or> path_isdir (fs h) (FfmpegPath self)))"
    and "model_editor_of h (panel_with_focus h) \<noteq> None" and "panel_with_focus h \<noteq> []"
    and "OutputDir \<noteq> []" and "FileName \<noteq> []"
  shows "execute self OutputDir FileName Padding Overscan ShowOrnaments ShowInViewer Overwrite h
         = execute_resolved self (panel_with_focus h) (ResolveOutputDirectoryPath OutputDir h)
             (ResolveOutputFilename FileName h)
             (if Padding \<le> 0 then DEFAULT_PADDING else Padding)
             Overscan ShowOrnaments ShowInViewer Overwrite h"
  using assms
  by (auto simp add: execute_def ValidateFfmpeg_def GetViewportPanel_def panel_ok_def panel_name_def
      split: option.splits)

lemma execute_resolved_exists:
  assumes "RequiresFfmpeg self" and "\<not> Overwrite"
    and "path_exists (fs h) (final_output_path self OutputDir FileName h)"
  shows "execute_resolved self panel OutputDir FileName Padding Overscan ShowOrnaments
           ShowInViewer Overwrite h
         = (Inr (), LogError self ''Output file already exists. Eanble overwrite to ignore.'' [] h)"
  using assms by (simp add: execute_resolved_def Let_def)


lemma only_logged_eq:
  assumes "only_logged h h'"
  shows "h' = h\<lparr>maya_display := maya_display h', output_logged := output_logged h'\<rparr>"
proof -
  from assms have "h = h'\<lparr>maya_display := maya_display h, output_logged := output_logged h\<rparr>"
    by (simp add: only_logged_def)
  then have "h\<lparr>maya_display := maya_display h', output_logged := output_logged h'\<rparr>
             = h'\<lparr>maya_display := maya_display h, output_logged := output_logged h\<rparr>
                 \<lparr>maya_display := maya_display h', output_logged := output_logged h'\<rparr>"
    by simp
  then show ?thesis by simp
qed

lemma only_logged_untouched:
  assumes "only_logged h h'"
  shows "new_calls h h' = [] \<and> fs h' = fs h \<and> panel_camera h' = panel_camera h
         \<and> editor_flags h' = editor_flags h \<and> overscan h' = overscan h"
proof -
  from assms have e: "h' = h\<lparr>maya_display := maya_display h', output_logged := output_logged h'\<rparr>"
    by (rule only_logged_eq)
  have "calls h' = calls h" by (subst e) simp
  moreover have "fs h' = fs h" by (subst e) simp
  moreover have "panel_camera h' = panel_camera h" by (subst e) simp
  moreover have "editor_flags h' = editor_flags h" by (subst e) simp
  moreover have "overscan h' = overscan h" by (subst e) simp
  ultimately show ?thesis by (simp add: new_calls_def)
qed

text \<open>
  C5. If the container requires the encoder and the encoder path is unset, does not exist
  or is a directory, or if no model panel has the focus, or if the output directory or the
  file name is empty, \<open>execute\<close> returns after reporting an error and has changed nothing
  but the log: no host call was made (no viewport mutation, no capture, no encoder), and the
  file system, the camera, the visibility flags and the overscan are as before.
\<close>

theorem execute_precondition_abort:
  assumes "RequiresFfmpeg self \<and> (FfmpegPath self = [] \<or> \<not> path_exists (fs h) (FfmpegPath self)
              \<or> path_isdir (fs h) (FfmpegPath self))
           \<or> model_editor_of h (panel_with_focus h) = None \<or> panel_with_focus h = []
           \<or> OutputDir = [] \<or> FileName = []"
  shows "fst (execute self OutputDir FileName Padding Overscan ShowOrnaments ShowInViewer
                Overwrite h) = Inr ()
         \<and> error_reported h (snd (execute self OutputDir FileName Padding Overscan ShowOrnaments
                ShowInViewer Overwrite h))
         \<and> new_calls h (snd (execute self OutputDir FileName Padding Overscan ShowOrnaments
                ShowInViewer Overwrite h)) = []
         \<and> fs (snd (execute self OutputDir FileName Padding Overscan ShowOrnaments
                ShowInViewer Overwrite h)) = fs h
         \<and> panel_camera (snd (execute self OutputDir FileName Padding Overscan ShowOrnaments
                ShowInViewer Overwrite h)) = panel_camera h
         \<and> editor_flags (snd (execute self OutputDir FileName Padding Overscan ShowOrnaments
                ShowInViewer Overwrite h)) = editor_flags h
         \<and> overscan (snd (execute self OutputDir FileName Padding Overscan ShowOrnaments
                ShowInViewer Overwrite h)) = overscan h"
proof -
  let ?r = "execute self OutputDir FileName Padding Overscan ShowOrnaments ShowInViewer
              Overwrite h"
  from assms have a: "fst ?r = Inr () \<and> error_reported h (snd ?r)"
    by (rule execute_precheck_abort)
  then have "only_logged h (snd ?r)" by (simp add: error_reported_def)
  then have "new_calls h (snd ?r) = [] \<and> fs (snd ?r) = fs h
             \<and> panel_camera (snd ?r) = panel_camera h
             \<and> editor_flags (snd ?r) = editor_flags h \<and> overscan (snd ?r) = overscan h"
    by (rule only_logged_untouched)
  with a show ?thesis by blast
qed

theorem execute_precondition_abort_witness:
  "fst (execute no_encoder_playblast ''{project}/movies'' ''{scene}'' 4 False True True False demo_host) = Inr ()
   \<and> error_reported demo_host
        (snd (execute no_encoder_playblast ''{project}/movies'' ''{scene}'' 4 False True True False demo_host))
   \<and> new_calls demo_host
        (snd (execute no_encoder_playblast ''{project}/movies'' ''{scene}'' 4 False True True False demo_host)) = []
   \<and> fs (snd (execute no_encoder_playblast ''{project}/movies'' ''{scene}'' 4 False True True False demo_host)) = fs demo_host
   \<and> panel_camera (snd (execute no_encoder_playblast ''{project}/movies'' ''{scene}'' 4 False True True False demo_host))
       = panel_camera demo_host
   \<and> editor_flags (snd (execute no_encoder_playblast ''{project}/movies'' ''{scene}'' 4 False True True False demo_host))
       = editor_flags demo_host
   \<and> overscan (snd (execute no_encoder_playblast ''{project}/movies'' ''{scene}'' 4 False True True False demo_host))
       = overscan demo_host"
proof -
  have "RequiresFfmpeg (no_encoder_playblast)
          \<and> (FfmpegPath (no_encoder_playblast) = []
              \<or> \<not> path_exists (fs demo_host) (FfmpegPath (no_encoder_playblast))
              \<or> path_isdir (fs demo_host) (FfmpegPath (no_encoder_playblast)))
        \<or> model_editor_of demo_host (panel_with_focus demo_host) = None
        \<or> panel_with_focus demo_host = []
        \<or> ''{project}/movies'' = [] \<or> ''{scene}'' = []"
    by (simp add: RequiresFfmpeg_def demo_playblast_def no_encoder_playblast_def)
  then show ?thesis by (rule execute_precondition_abort)
qed

lemma execute_exists_abort:
  assumes "RequiresFfmpeg self" and "\<not> Overwrite"
    and "path_exists (fs h)
           (final_output_path self (ResolveOutputDirectoryPath OutputDir h)
              (ResolveOutputFilename FileName h) h)"
  shows "fst (execute self OutputDir FileName Padding Overscan ShowOrnaments ShowInViewer
                Overwrite h) = Inr ()
         \<and> error_reported h (snd (execute self OutputDir FileName Padding Overscan ShowOrnaments
                ShowInViewer Overwrite h))"
proof (cases "RequiresFfmpeg self \<and> (FfmpegPath self = [] \<or> \<not> path_exists (fs h) (FfmpegPath self)
              \<or> path_isdir (fs h) (FfmpegPath self))
           \<or> model_editor_of h (panel_with_focus h) = None \<or> panel_with_focus h = []
           \<or> OutputDir = [] \<or> FileName = []")
  case True
  then show ?thesis by (rule execute_precheck_abort)
next
  case False
  then have f1: "\<not> (RequiresFfmpeg self \<and> (FfmpegPath self = []
              \<or> \<not> path_exists (fs h) (FfmpegPath self)
              \<or> path_isdir (fs h) (FfmpegPath self)))"
    and f2: "model_editor_of h (panel_with_focus h) \<noteq> None"
    and f3: "panel_with_focus h \<noteq> []" and f4: "OutputDir \<noteq> []" and f5: "FileName \<noteq> []"
    by simp_all
  have "execute self OutputDir FileName Padding Overscan ShowOrnaments ShowInViewer Overwrite h
         = execute_resolved self (panel_with_focus h) (ResolveOutputDirectoryPath OutputDir h)
             (ResolveOutputFilename FileName h)
             (if Padding \<le> 0 then DEFAULT_PADDING else Padding)
             Overscan ShowOrnaments ShowInViewer Overwrite h"
    using f1 f2 f3 f4 f5 by (rule execute_prechecks_pass)
  with assms show ?thesis
    by (simp add: execute_resolved_exists error_reported_LogError)
qed

lemma output_path_log_independent:
  "final_output_path self
     (ResolveOutputDirectoryPath OutputDir (h\<lparr>maya_display := m, output_logged := l\<rparr>))
     (ResolveOutputFilename FileName (h\<lparr>maya_display := m, output_logged := l\<rparr>))
     (h\<lparr>maya_display := m, output_logged := l\<rparr>)
   = final_output_path self (ResolveOutputDirectoryPath OutputDir h)
       (ResolveOutputFilename FileName h) h"
  by (simp add: final_output_path_def ResolveOutputDirectoryPath_def ResolveOutputFilename_def
      GetProjectDirPath_def GetSceneName_def)

text \<open>
  C6, as amended. For a container that requires the encoder, with overwrite disabled and
  the output file already there, \<open>execute\<close> returns after reporting an error and has
  changed nothing but the log (no host call, file system untouched); a second invocation
  from the resulting state does the same. For the \<open>Image\<close> container the code has no
  such check: it passes the flag to the capture primitive as \<open>forceOverwrite\<close>.
\<close>

theorem execute_output_exists:
  assumes "RequiresFfmpeg self" and "\<not> Overwrite"
    and "path_exists (fs h)
           (final_output_path self (ResolveOutputDirectoryPath OutputDir h)
              (ResolveOutputFilename FileName h) h)"
  shows "fst (execute self OutputDir FileName Padding Overscan ShowOrnaments ShowInViewer
                Overwrite h) = Inr ()
         \<and> error_reported h (snd (execute self OutputDir FileName Padding Overscan ShowOrnaments
                ShowInViewer Overwrite h))
         \<and> new_calls h (snd (execute self OutputDir FileName Padding Overscan ShowOrnaments
                ShowInViewer Overwrite h)) = []
         \<and> fs (snd (execute self OutputDir FileName Padding Overscan ShowOrnaments
                ShowInViewer Overwrite h)) = fs h
         \<and> fst (execute self OutputDir FileName Padding Overscan ShowOrnaments ShowInViewer
                Overwrite
                (snd (execute self OutputDir FileName Padding Overscan ShowOrnaments
                        ShowInViewer Overwrite h))) = Inr ()
         \<and> error_reported
              (snd (execute self OutputDir FileName Padding Overscan ShowOrnaments
                      ShowInViewer Overwrite h))
              (snd (execute self OutputDir FileName Padding Overscan ShowOrnaments ShowInViewer
                      Overwrite
                      (snd (execute self OutputDir FileName Padding Overscan ShowOrnaments
                              ShowInViewer Overwrite h))))
         \<and> new_calls h
              (snd (execute self OutputDir FileName Padding Overscan ShowOrnaments ShowInViewer
                      Overwrite
                      (snd (execute self OutputDir FileName Padding Overscan ShowOrnaments
                              ShowInViewer Overwrite h)))) = []
         \<and> fs (snd (execute self OutputDir FileName Padding Overscan ShowOrnaments ShowInViewer
                      Overwrite
                      (snd (execute self OutputDir FileName Padding Overscan ShowOrnaments
                              ShowInViewer Overwrite h)))) = fs h"
proof -
  let ?h1 = "snd (execute self OutputDir FileName Padding Overscan ShowOrnaments ShowInViewer
                    Overwrite h)"
  let ?h2 = "snd (execute self OutputDir FileName Padding Overscan ShowOrnaments ShowInViewer
                    Overwrite ?h1)"
  from assms have a: "fst (execute self OutputDir FileName Padding Overscan ShowOrnaments
                             ShowInViewer Overwrite h) = Inr () \<and> error_reported h ?h1"
    by (rule execute_exists_abort)
  then have l1: "only_logged h ?h1" by (simp add: error_reported_def)
  then have e1: "?h1 = h\<lparr>maya_display := maya_display ?h1, output_logged := output_logged ?h1\<rparr>"
    by (rule only_logged_eq)
  from l1 have u1: "new_calls h ?h1 = [] \<and> fs ?h1 = fs h \<and> panel_camera ?h1 = panel_camera h
         \<and> editor_flags ?h1 = editor_flags h \<and> overscan ?h1 = overscan h"
    by (rule only_logged_untouched)
  have p: "final_output_path self (ResolveOutputDirectoryPath OutputDir ?h1)
              (ResolveOutputFilename FileName ?h1) ?h1
           = final_output_path self (ResolveOutputDirectoryPath OutputDir h)
              (ResolveOutputFilename FileName h) h"
    by (subst e1, subst (2) e1, subst (3) e1) (rule output_path_log_independent)
  with assms(3) u1 have "path_exists (fs ?h1)
           (final_output_path self (ResolveOutputDirectoryPath OutputDir ?h1)
              (ResolveOutputFilename FileName ?h1) ?h1)"
    by simp
  with assms(1,2) have b: "fst (execute self OutputDir FileName Padding Overscan ShowOrnaments
                             ShowInViewer Overwrite ?h1) = Inr () \<and> error_reported ?h1 ?h2"
    by (rule execute_exists_abort)
  then have "only_logged ?h1 ?h2" by (simp add: error_reported_def)
  then have u2: "new_calls ?h1 ?h2 = [] \<and> fs ?h2 = fs ?h1 \<and> panel_camera ?h2 = panel_camera ?h1
         \<and> editor_flags ?h2 = editor_flags ?h1 \<and> overscan ?h2 = overscan ?h1"
    by (rule only_logged_untouched)
  have c: "calls ?h1 = calls h"
    by (subst e1) simp
  from u2 c have "new_calls h ?h2 = []" by (simp add: new_calls_def)
  with a b u1 u2 show ?thesis by simp
qed


theorem execute_output_exists_witness:
  "fst (execute demo_playblast ''{project}/movies'' ''{scene}'' 4 False True True False occupied_host) = Inr ()
   \<and> error_reported occupied_host (snd (execute demo_playblast ''{project}/movies'' ''{scene}'' 4 False True True False occupied_host))
   \<and> new_calls occupied_host (snd (execute demo_playblast ''{project}/movies'' ''{scene}'' 4 False True True False occupied_host)) = []
   \<and> fs (snd (execute demo_playblast ''{project}/movies'' ''{scene}'' 4 False True True False occupied_host)) = fs occupied_host
   \<and> fst (execute demo_playblast ''{project}/movies'' ''{scene}'' 4 False True True False
            (snd (execute demo_playblast ''{project}/movies'' ''{scene}'' 4 False True True False occupied_host))) = Inr ()
   \<and> error_reported (snd (execute demo_playblast ''{project}/movies'' ''{scene}'' 4 False True True False occupied_host))
        (snd (execute demo_playblast ''{project}/movies'' ''{scene}'' 4 False True True False
               (snd (execute demo_playblast ''{project}/movies'' ''{scene}'' 4 False True True False occupied_host))))
   \<and> new_calls occupied_host
        (snd (execute demo_playblast ''{project}/movies'' ''{scene}'' 4 False True True False
               (snd (execute demo_playblast ''{project}/movies'' ''{scene}'' 4 False True True False occupied_host)))) = []
   \<and> fs (snd (execute demo_playblast ''{project}/movies'' ''{scene}'' 4 False True True False
               (snd (execute demo_playblast ''{project}/movies'' ''{scene}'' 4 False True True False occupied_host)))) = fs occupied_host"
proof -
  have a: "RequiresFfmpeg demo_playblast"
    by (simp add: RequiresFfmpeg_def demo_playblast_def)
  have b: "\<not> False" by simp
  have c: "path_exists (fs occupied_host)
             (final_output_path demo_playblast
                (ResolveOutputDirectoryPath ''{project}/movies'' occupied_host)
                (ResolveOutputFilename ''{scene}'' occupied_host) occupied_host)"
    by code_simp
  from a b c show ?thesis by (rule execute_output_exists)
qed

text \<open>
  C6 as stated fails for the \<open>Image\<close> container: with overwrite disabled and every path
  already existing, the viewport is changed and the capture primitive is called, with
  \<open>forceOverwrite\<close> false.
\<close>

theorem image_container_captures_over_existing:
  "path_exists (fs crowded_host) ''/proj/movies/shot''
   \<and> path_exists (fs crowded_host) ''/proj/movies/shot.0001.png''
   \<and> fst (execute image_playblast ''{project}/movies'' ''{scene}'' 4 False True True False crowded_host) = Inr ()
   \<and> list_ex is_viewport_call
        (new_calls crowded_host (snd (execute image_playblast ''{project}/movies'' ''{scene}'' 4 False True True False crowded_host)))
   \<and> filter is_playblast_call
        (new_calls crowded_host (snd (execute image_playblast ''{project}/movies'' ''{scene}'' 4 False True True False crowded_host)))
     = [CallPlayblast \<lparr>opt_filename = ''/proj/movies/shot'',
          opt_widthHeight = PTuple [PInt 1920, PInt 1080], opt_percent = 100,
          opt_startTime = PInt 1, opt_endTime = PInt 100, opt_clearCache = True,
          opt_forceOverwrite = False, opt_format = ''image'', opt_compression = ''png'',
          opt_quality = 100, opt_indexFromZero = False, opt_framePadding = 4,
          opt_showOrnaments = True, opt_viewer = True\<rparr>]"
  by code_simp

section \<open>Stages of a run\<close>

text \<open>How the parts of \<open>execute\<close> change the host: each lets the calls and the log grow,
  and most leave the viewport alone.\<close>

lemma evolves_refl: "evolves h h"
  by (simp add: evolves_def)

lemma evolves_trans:
  assumes "evolves h h'" and "evolves h' h''"
  shows "evolves h h''"
proof -
  from assms(1) have a: "h'\<lparr>calls := calls h, maya_display := maya_display h,
         output_logged := output_logged h, fs := fs h, panel_camera := panel_camera h,
         editor_flags := editor_flags h, overscan := overscan h\<rparr> = h"
    by (simp add: evolves_def)
  from assms(2) have b: "h''\<lparr>calls := calls h', maya_display := maya_display h',
         output_logged := output_logged h', fs := fs h', panel_camera := panel_camera h',
         editor_flags := editor_flags h', overscan := overscan h'\<rparr> = h'"
    by (simp add: evolves_def)
  have "h''\<lparr>calls := calls h, maya_display := maya_display h,
         output_logged := output_logged h, fs := fs h, panel_camera := panel_camera h,
         editor_flags := editor_flags h, overscan := overscan h\<rparr>
        = h''\<lparr>calls := calls h', maya_display := maya_display h',
         output_logged := output_logged h', fs := fs h', panel_camera := panel_camera h',
         editor_flags := editor_flags h', overscan := overscan h'\<rparr>
           \<lparr>calls := calls h, maya_display := maya_display h,
         output_logged := output_logged h, fs := fs h, panel_camera := panel_camera h,
         editor_flags := editor_flags h, overscan := overscan h\<rparr>"
    by simp
  also have "\<dots> = h" by (simp only: b a)
  finally have c: "h''\<lparr>calls := calls h, maya_display := maya_display h,
         output_logged := output_logged h, fs := fs h, panel_camera := panel_camera h,
         editor_flags := editor_flags h, overscan := overscan h\<rparr> = h" .
  from assms have "prefix (calls h) (calls h'')" "prefix (output_logged h) (output_logged h'')"
    by (auto simp add: evolves_def intro: prefix_order.trans)
  with c show ?thesis by (simp add: evolves_def)
qed

lemma evolves_new_calls:
  assumes "evolves h h'" and "evolves h' h''"
  shows "new_calls h h'' = new_calls h h' @ new_calls h' h''"
    and "new_log h h'' = new_log h h' @ new_log h' h''"
proof -
  from assms obtain xs ys where "calls h' = calls h @ xs" "calls h'' = calls h' @ ys"
    by (auto simp add: evolves_def prefix_def)
  then show "new_calls h h'' = new_calls h h' @ new_calls h' h''"
    by (simp add: new_calls_def)
  from assms obtain us vs where "output_logged h' = output_logged h @ us"
    "output_logged h'' = output_logged h' @ vs"
    by (auto simp add: evolves_def prefix_def)
  then show "new_log h h'' = new_log h h' @ new_log h' h''"
    by (simp add: new_log_def)
qed

lemma evolves_static:
  assumes "evolves h h'"
  shows "time_unit h' = time_unit h" "py_float h' = py_float h"
    "qdir_filePath h' = qdir_filePath h" "qfile_removable h' = qfile_removable h"
    "qdir_match h' = qdir_match h" "sound_node h' = sound_node h"
    "sound_filename h' = sound_filename h" "sound_offset h' = sound_offset h"
    "panel_with_focus h' = panel_with_focus h" "model_editor_of h' = model_editor_of h"
    "list_cameras h' = list_cameras h" "playblast_prim h' = playblast_prim h"
proof -
  from assms have a: "h = h'\<lparr>calls := calls h, maya_display := maya_display h,
         output_logged := output_logged h, fs := fs h, panel_camera := panel_camera h,
         editor_flags := editor_flags h, overscan := overscan h\<rparr>"
    by (simp add: evolves_def)
  show "time_unit h' = time_unit h" by (subst a) simp
  show "py_float h' = py_float h" by (subst a) simp
  show "qdir_filePath h' = qdir_filePath h" by (subst a) simp
  show "qfile_removable h' = qfile_removable h" by (subst a) simp
  show "qdir_match h' = qdir_match h" by (subst a) simp
  show "sound_node h' = sound_node h" by (subst a) simp
  show "sound_filename h' = sound_filename h" by (subst a) simp
  show "sound_offset h' = sound_offset h" by (subst a) simp
  show "panel_with_focus h' = panel_with_focus h" by (subst a) simp
  show "model_editor_of h' = model_editor_of h" by (subst a) simp
  show "list_cameras h' = list_cameras h" by (subst a) simp
  show "playblast_prim h' = playblast_prim h" by (subst a) simp
qed

lemma evolves_emit_log:
  "evolves h (emit_log self l h)" "new_calls h (emit_log self l h) = []"
  "new_log h (emit_log self l h) = [l]" "fs (emit_log self l h) = fs h"
  "panel_camera (emit_log self l h) = panel_camera h"
  "editor_flags (emit_log self l h) = editor_flags h"
  "overscan (emit_log self l h) = overscan h"
  by (simp_all add: evolves_def emit_log_def new_calls_def new_log_def)

lemma offstage_refl: "offstage h h"
  by (simp add: offstage_def evolves_refl same_viewport_def new_calls_def)

lemma offstage_trans:
  assumes "offstage h h'" and "offstage h' h''"
  shows "offstage h h''"
proof -
  from assms have e: "evolves h h'" "evolves h' h''" by (simp_all add: offstage_def)
  then have "evolves h h''" by (rule evolves_trans)
  moreover from assms have "same_viewport h h''" by (simp add: offstage_def same_viewport_def)
  moreover from assms evolves_new_calls(1) [OF e]
  have "filter is_viewport_call (new_calls h h'') = []"
    "filter is_playblast_call (new_calls h h'') = []"
    by (simp_all add: offstage_def)
  ultimately show ?thesis by (simp add: offstage_def)
qed

lemma offstage_emit_log: "offstage h (emit_log self l h)"
  by (simp add: offstage_def evolves_emit_log same_viewport_def)

lemma offstage_Log:
  "offstage h (LogError self t a h)" "offstage h (LogWarning self t a h)"
  "offstage h (LogOutput self t a h)"
  by (simp_all add: LogError_def LogWarning_def LogOutput_def offstage_emit_log)

lemma ExecuteFfmpegCommand_effect:
  "offstage h (ExecuteFfmpegCommand cmd self h)"
  "new_calls h (ExecuteFfmpegCommand cmd self h) = [CallFfmpegStart cmd]"
  "filter is_warning_line (new_log h (ExecuteFfmpegCommand cmd self h)) = []"
  "filter is_error_line (new_log h (ExecuteFfmpegCommand cmd self h)) = []"
  by (simp_all add: ExecuteFfmpegCommand_def Let_def wait_ffmpeg_eq offstage_def evolves_def
      same_viewport_def new_calls_def new_log_def filter_empty_conv)

lemma Encodeh264_raises:
  assumes "\<not> encode_returns self StartFr h"
  shows "\<exists>e. Encodeh264 src out StartFr self h = (Inl e, h)"
  using assms
  by (auto simp add: encode_returns_def Encodeh264_def split: sum.splits option.splits)

lemma Encodeh264_returns:
  assumes "encode_returns self StartFr h"
  shows "fst (Encodeh264 src out StartFr self h) = Inr ()"
    and "offstage h (snd (Encodeh264 src out StartFr self h))"
    and "filter is_rmdir_call (new_calls h (snd (Encodeh264 src out StartFr self h))) = []"
    and "filter is_warning_line (new_log h (snd (Encodeh264 src out StartFr self h))) = []"
    and "filter is_error_line (new_log h (snd (Encodeh264 src out StartFr self h))) = []"
proof -
  from assms obtain rate a crf where r: "GetFrameRate h = Inr rate"
    "audio_input StartFr rate h = Inr a" "map_of H264_QUALITIES (h264Quality self) = Some crf"
    by (auto simp add: encode_returns_def split: sum.splits option.splits)
  let ?cmd = "ffmpeg_command self rate src a crf out"
  let ?h1 = "LogOutput self (concat (map fst ?cmd)) (concat (map snd ?cmd)) h"
  from r have e: "Encodeh264 src out StartFr self h = (Inr (), ExecuteFfmpegCommand ?cmd self ?h1)"
    by (simp add: Encodeh264_def Let_def)
  have o1: "offstage h ?h1" by (rule offstage_Log)
  have o2: "offstage ?h1 (ExecuteFfmpegCommand ?cmd self ?h1)"
    by (rule ExecuteFfmpegCommand_effect)
  from o1 o2 have ev: "evolves h ?h1" "evolves ?h1 (ExecuteFfmpegCommand ?cmd self ?h1)"
    by (simp_all add: offstage_def)
  have c1: "new_calls h ?h1 = []" "new_log h ?h1 = [LogLine INFO (concat (map fst ?cmd)) (concat (map snd ?cmd))]"
    by (simp_all add: LogOutput_def evolves_emit_log)
  show "fst (Encodeh264 src out StartFr self h) = Inr ()" by (simp add: e)
  show "offstage h (snd (Encodeh264 src out StartFr self h))"
    using offstage_trans [OF o1 o2] by (simp add: e)
  show "filter is_rmdir_call (new_calls h (snd (Encodeh264 src out StartFr self h))) = []"
    by (simp add: e evolves_new_calls(1) [OF ev] c1 ExecuteFfmpegCommand_effect)
  show "filter is_warning_line (new_log h (snd (Encodeh264 src out StartFr self h))) = []"
    by (simp add: e evolves_new_calls(2) [OF ev] c1 ExecuteFfmpegCommand_effect)
  show "filter is_error_line (new_log h (snd (Encodeh264 src out StartFr self h))) = []"
    by (simp add: e evolves_new_calls(2) [OF ev] c1 ExecuteFfmpegCommand_effect)
qed

lemma qdir_remove_effect:
  "offstage h (qdir_remove d n h)"
  "new_calls h (qdir_remove d n h) = [CallQDirRemove d n]"
  "new_log h (qdir_remove d n h) = []"
  by (simp_all add: qdir_remove_def Let_def offstage_def evolves_def same_viewport_def
      new_calls_def new_log_def)

lemma fold_qdir_remove_effect:
  "offstage h (fold (qdir_remove d) ns h)
   \<and> new_calls h (fold (qdir_remove d) ns h) = map (CallQDirRemove d) ns
   \<and> new_log h (fold (qdir_remove d) ns h) = []"
proof (induction ns arbitrary: h)
  case Nil
  show ?case by (simp add: offstage_refl new_calls_def new_log_def)
next
  case (Cons n ns)
  let ?h1 = "qdir_remove d n h"
  let ?h2 = "fold (qdir_remove d) ns ?h1"
  have o1: "offstage h ?h1" by (rule qdir_remove_effect)
  from Cons.IH [of ?h1] have o2: "offstage ?h1 ?h2"
    and c2: "new_calls ?h1 ?h2 = map (CallQDirRemove d) ns" and l2: "new_log ?h1 ?h2 = []"
    by simp_all
  from o1 o2 have ev: "evolves h ?h1" "evolves ?h1 ?h2" by (simp_all add: offstage_def)
  show ?case
    using offstage_trans [OF o1 o2] evolves_new_calls [OF ev] c2 l2
    by (simp add: qdir_remove_effect)
qed

lemma qdir_rmdir_effect:
  "offstage h (snd (qdir_rmdir d n h))"
  "new_calls h (snd (qdir_rmdir d n h)) = [CallQDirRmdir (qdir_filePath h d n) (fst (qdir_rmdir d n h))]"
  "new_log h (snd (qdir_rmdir d n h)) = []"
  by (simp_all add: qdir_rmdir_def Let_def offstage_def evolves_def same_viewport_def
      new_calls_def new_log_def)

lemma qdir_rmdir_removed:
  "fst (qdir_rmdir d n h) \<Longrightarrow>
   \<not> path_exists (fs (snd (qdir_rmdir d n h))) (qdir_filePath h d n)"
  by (auto simp add: qdir_rmdir_def Let_def split: if_splits)

lemma RemoveTempDir_effect:
  "offstage h (RemoveTempDir d self h)
   \<and> filter is_error_line (new_log h (RemoveTempDir d self h)) = []
   \<and> (\<exists>ok. filter is_rmdir_call (new_calls h (RemoveTempDir d self h))
              = [CallQDirRmdir (qdir_filePath h d d) ok]
        \<and> (if ok
            then \<not> path_exists (fs (RemoveTempDir d self h)) (qdir_filePath h d d)
                 \<and> new_log h (RemoveTempDir d self h) = []
            else new_log h (RemoveTempDir d self h)
                 = [LogLine WARNING ''Failed to remove temporary directory: {0}'' [PStr d]]))"
proof -
  let ?ns = "map fst (filter (\<lambda>e. snd e \<and> qdir_match h ''*.png'' (fst e))
                                 (dir_entries (fs h) d))"
  let ?h1 = "fold (qdir_remove d) ?ns h"
  let ?ok = "fst (qdir_rmdir d d ?h1)"
  let ?h2 = "snd (qdir_rmdir d d ?h1)"
  let ?h3 = "if \<not> ?ok then LogWarning self ''Failed to remove temporary directory: {0}''
                    [PStr d] ?h2 else ?h2"
  have e: "RemoveTempDir d self h = ?h3"
    by (simp add: RemoveTempDir_def Let_def split: prod.splits)
  have o1: "offstage h ?h1" and c1: "new_calls h ?h1 = map (CallQDirRemove d) ?ns"
    and l1: "new_log h ?h1 = []"
    using fold_qdir_remove_effect [of h d ?ns] by simp_all
  have o2: "offstage ?h1 ?h2" by (rule qdir_rmdir_effect)
  have o3: "offstage ?h2 ?h3" by (simp add: offstage_refl offstage_Log)
  from o1 have ev1: "evolves h ?h1" by (simp add: offstage_def)
  from o2 have ev2: "evolves ?h1 ?h2" by (simp add: offstage_def)
  from o3 have ev3: "evolves ?h2 ?h3" by (simp add: offstage_def)
  have p: "qdir_filePath ?h1 = qdir_filePath h" using ev1 by (rule evolves_static)
  have o12: "offstage h ?h2" using o1 o2 by (rule offstage_trans)
  then have ev12: "evolves h ?h2" by (simp add: offstage_def)
  have c12: "new_calls h ?h2 = map (CallQDirRemove d) ?ns @ [CallQDirRmdir (qdir_filePath h d d) ?ok]"
    using evolves_new_calls(1) [OF ev1 ev2] c1 by (simp add: qdir_rmdir_effect p)
  have l12: "new_log h ?h2 = []"
    using evolves_new_calls(2) [OF ev1 ev2] l1 by (simp add: qdir_rmdir_effect)
  have c3: "new_calls ?h2 ?h3 = []"
    by (simp add: new_calls_def LogWarning_def emit_log_def)
  have l3: "new_log ?h2 ?h3 = (if ?ok then [] else
              [LogLine WARNING ''Failed to remove temporary directory: {0}'' [PStr d]])"
    by (simp add: new_log_def LogWarning_def emit_log_def)
  have f3: "fs ?h3 = fs ?h2" by (simp add: LogWarning_def emit_log_def)
  have c: "new_calls h ?h3 = map (CallQDirRemove d) ?ns @ [CallQDirRmdir (qdir_filePath h d d) ?ok]"
    using evolves_new_calls(1) [OF ev12 ev3] c12 c3 by simp
  have l: "new_log h ?h3 = (if ?ok then [] else
              [LogLine WARNING ''Failed to remove temporary directory: {0}'' [PStr d]])"
    using evolves_new_calls(2) [OF ev12 ev3] l12 l3 by simp
  have fr: "filter is_rmdir_call (new_calls h ?h3) = [CallQDirRmdir (qdir_filePath h d d) ?ok]"
    by (simp add: c filter_empty_conv)
  have ex: "?ok \<Longrightarrow> \<not> path_exists (fs ?h3) (qdir_filePath h d d)"
    using qdir_rmdir_removed [of d d ?h1] by (simp add: f3 p)
  have "offstage h ?h3" using o12 o3 by (rule offstage_trans)
  moreover have "filter is_error_line (new_log h ?h3) = []" by (simp add: l)
  moreover have "if ?ok
            then \<not> path_exists (fs ?h3) (qdir_filePath h d d) \<and> new_log h ?h3 = []
            else new_log h ?h3
                 = [LogLine WARNING ''Failed to remove temporary directory: {0}'' [PStr d]]"
  proof (cases ?ok)
    case True
    with ex l show ?thesis by (simp only: if_True simp_thms)
  next
    case False
    with l show ?thesis by (simp only: if_False simp_thms)
  qed
  ultimately show ?thesis
    unfolding e using fr by blast
qed

lemma OpenInViewer_effect:
  "offstage h (OpenInViewer p self h)"
  "filter is_rmdir_call (new_calls h (OpenInViewer p self h)) = []"
  "filter is_warning_line (new_log h (OpenInViewer p self h)) = []"
  "fs (OpenInViewer p self h) = fs h"
  by (simp_all add: OpenInViewer_def offstage_def evolves_def same_viewport_def new_calls_def
      new_log_def LogError_def emit_log_def split: option.splits)

lemma new_same: "new_calls h h = []" "new_log h h = []"
  by (simp_all add: new_calls_def new_log_def)

lemma remove_between:
  assumes o1: "offstage h h1"
    and r1: "filter is_rmdir_call (new_calls h h1) = []"
    and w1: "filter is_warning_line (new_log h h1) = []"
    and o3: "offstage (RemoveTempDir d self h1) h3"
    and r3: "filter is_rmdir_call (new_calls (RemoveTempDir d self h1) h3) = []"
    and w3: "filter is_warning_line (new_log (RemoveTempDir d self h1) h3) = []"
    and f3: "fs h3 = fs (RemoveTempDir d self h1)"
  shows "offstage h h3
         \<and> (\<exists>ok. filter is_rmdir_call (new_calls h h3) = [CallQDirRmdir (qdir_filePath h d d) ok]
              \<and> (if ok
                  then \<not> path_exists (fs h3) (qdir_filePath h d d)
                       \<and> filter is_warning_line (new_log h h3) = []
                  else filter is_warning_line (new_log h h3)
                       = [LogLine WARNING ''Failed to remove temporary directory: {0}''
                            [PStr d]]))"
proof -
  let ?h2 = "RemoveTempDir d self h1"
  from RemoveTempDir_effect [of h1 d self] obtain ok where o2: "offstage h1 ?h2"
    and r2: "filter is_rmdir_call (new_calls h1 ?h2) = [CallQDirRmdir (qdir_filePath h1 d d) ok]"
    and k: "if ok then \<not> path_exists (fs ?h2) (qdir_filePath h1 d d) \<and> new_log h1 ?h2 = []
            else new_log h1 ?h2
                 = [LogLine WARNING ''Failed to remove temporary directory: {0}'' [PStr d]]"
    by blast
  from o1 o2 have o12: "offstage h ?h2" by (rule offstage_trans)
  from o12 o3 have o: "offstage h h3" by (rule offstage_trans)
  from o1 have ev1: "evolves h h1" by (simp add: offstage_def)
  from o2 have ev2: "evolves h1 ?h2" by (simp add: offstage_def)
  from o12 have ev12: "evolves h ?h2" by (simp add: offstage_def)
  from o3 have ev3: "evolves ?h2 h3" by (simp add: offstage_def)
  have p: "qdir_filePath h1 = qdir_filePath h" using ev1 by (rule evolves_static)
  have c: "filter is_rmdir_call (new_calls h h3) = [CallQDirRmdir (qdir_filePath h d d) ok]"
    by (simp add: evolves_new_calls(1) [OF ev12 ev3] evolves_new_calls(1) [OF ev1 ev2]
        r1 r2 r3 p)
  have l: "filter is_warning_line (new_log h h3) = filter is_warning_line (new_log h1 ?h2)"
    by (simp add: evolves_new_calls(2) [OF ev12 ev3] evolves_new_calls(2) [OF ev1 ev2] w1 w3)
  have "if ok
        then \<not> path_exists (fs h3) (qdir_filePath h d d)
             \<and> filter is_warning_line (new_log h h3) = []
        else filter is_warning_line (new_log h h3)
             = [LogLine WARNING ''Failed to remove temporary directory: {0}'' [PStr d]]"
  proof (cases ok)
    case True
    with k have "\<not> path_exists (fs ?h2) (qdir_filePath h1 d d)" "new_log h1 ?h2 = []"
      by simp_all
    with True show ?thesis by (simp add: l f3 p)
  next
    case False
    with k have "new_log h1 ?h2
                 = [LogLine WARNING ''Failed to remove temporary directory: {0}'' [PStr d]]"
      by simp
    with False show ?thesis by (simp add: l)
  qed
  with o c show ?thesis by blast
qed

lemma execute_encode_effect:
  assumes "Encoder self \<noteq> ''h264'' \<or> encode_returns self StartFr h"
  shows "fst (execute_encode self tmp FileName Padding OutputPath StartFr ShowInViewer h) = Inr ()
    \<and> offstage h (snd (execute_encode self tmp FileName Padding OutputPath StartFr ShowInViewer h))
    \<and> (\<exists>ok. filter is_rmdir_call
               (new_calls h (snd (execute_encode self tmp FileName Padding OutputPath StartFr
                                    ShowInViewer h)))
              = [CallQDirRmdir (qdir_filePath h tmp tmp) ok]
          \<and> (if ok
              then \<not> path_exists
                       (fs (snd (execute_encode self tmp FileName Padding OutputPath StartFr
                                   ShowInViewer h)))
                       (qdir_filePath h tmp tmp)
                   \<and> filter is_warning_line
                        (new_log h (snd (execute_encode self tmp FileName Padding OutputPath
                                           StartFr ShowInViewer h))) = []
              else filter is_warning_line
                     (new_log h (snd (execute_encode self tmp FileName Padding OutputPath StartFr
                                        ShowInViewer h)))
                   = [LogLine WARNING ''Failed to remove temporary directory: {0}''
                        [PStr tmp]]))"
proof (cases "Encoder self = ''h264''")
  case True
  with assms have er: "encode_returns self StartFr h" by simp
  let ?src = "tmp @ ''/'' @ FileName @ ''.%0'' @ py_str_int Padding @ ''d.png''"
  let ?h1 = "snd (Encodeh264 ?src OutputPath StartFr self h)"
  let ?h2 = "RemoveTempDir tmp self ?h1"
  let ?h3 = "if ShowInViewer then OpenInViewer OutputPath self ?h2 else ?h2"
  from er have f: "fst (Encodeh264 ?src OutputPath StartFr self h) = Inr ()"
    by (rule Encodeh264_returns)
  then obtain h1 where eq: "Encodeh264 ?src OutputPath StartFr self h = (Inr (), h1)"
    by (cases "Encodeh264 ?src OutputPath StartFr self h") auto
  then have h1: "?h1 = h1" by simp
  from True eq have "execute_encode self tmp FileName Padding OutputPath StartFr ShowInViewer h
           = (Inr (), if ShowInViewer then OpenInViewer OutputPath self (RemoveTempDir tmp self h1)
                      else RemoveTempDir tmp self h1)"
    by (simp add: execute_encode_def Let_def)
  then have e: "execute_encode self tmp FileName Padding OutputPath StartFr ShowInViewer h
           = (Inr (), ?h3)"
    by (simp only: h1)
  have o1: "offstage h ?h1" using er by (rule Encodeh264_returns)
  have r1: "filter is_rmdir_call (new_calls h ?h1) = []" using er by (rule Encodeh264_returns)
  have w1: "filter is_warning_line (new_log h ?h1) = []" using er by (rule Encodeh264_returns)
  have o3: "offstage ?h2 ?h3" by (simp add: offstage_refl OpenInViewer_effect)
  have r3: "filter is_rmdir_call (new_calls ?h2 ?h3) = []"
    by (simp add: OpenInViewer_effect new_same)
  have w3: "filter is_warning_line (new_log ?h2 ?h3) = []"
    by (simp add: OpenInViewer_effect new_same)
  have f3: "fs ?h3 = fs ?h2" by (simp add: OpenInViewer_effect)
  from remove_between [OF o1 r1 w1 o3 r3 w3 f3] show ?thesis
    by (simp only: e fst_conv snd_conv simp_thms)
next
  case False
  let ?h1 = "LogError self ''Encoding failed. Unsupported encoder ({0}) for container ({1}).''
               [PStr (Encoder self), PStr (ContainerFormat self)] h"
  let ?h2 = "RemoveTempDir tmp self ?h1"
  from False have e: "execute_encode self tmp FileName Padding OutputPath StartFr ShowInViewer h
           = (Inr (), ?h2)"
    by (simp add: execute_encode_def Let_def)
  have o1: "offstage h ?h1" by (rule offstage_Log)
  have r1: "filter is_rmdir_call (new_calls h ?h1) = []"
    by (simp add: LogError_def evolves_emit_log)
  have w1: "filter is_warning_line (new_log h ?h1) = []"
    by (simp add: LogError_def evolves_emit_log)
  have o3: "offstage ?h2 ?h2" by (rule offstage_refl)
  have r3: "filter is_rmdir_call (new_calls ?h2 ?h2) = []" by (simp add: new_same)
  have w3: "filter is_warning_line (new_log ?h2 ?h2) = []" by (simp add: new_same)
  from remove_between [OF o1 r1 w1 o3 r3 w3 refl] show ?thesis
    by (simp only: e fst_conv snd_conv simp_thms)
qed

section \<open>The capture phase\<close>

text \<open>Reading the viewport, building the flag maps, and what capturing and restoring
  does to the host.\<close>

lemma those_map_Some:
  "those (map f xs) = Some ys \<Longrightarrow> ys = map (\<lambda>x. the (f x)) xs \<and> (\<forall>x \<in> set xs. f x \<noteq> None)"
  by (induction xs arbitrary: ys) (auto split: option.splits)

lemma those_map_None:
  "those (map f xs) = None \<Longrightarrow> \<exists>x \<in> set xs. f x = None"
  by (induction xs) (auto split: option.splits)

lemma flags_readable_iff:
  "flags_readable h = (\<forall>Item \<in> set VIEWPORT_VISIBILITY_LOOKUP. editor_flags h (snd Item) \<noteq> None)"
  unfolding flags_readable_def
  using those_map_Some [of "\<lambda>Item. editor_flags h (snd Item)" VIEWPORT_VISIBILITY_LOOKUP]
    those_map_None [of "\<lambda>Item. editor_flags h (snd Item)" VIEWPORT_VISIBILITY_LOOKUP]
  by (cases "those (map (\<lambda>Item. editor_flags h (snd Item)) VIEWPORT_VISIBILITY_LOOKUP)") auto

lemma GetViewportPanel_active:
  assumes "viewport_active h"
  shows "GetViewportPanel self h = (Some (panel_with_focus h), h)"
    and "panel_ok (Some (panel_with_focus h))"
  using assms by (auto simp add: viewport_active_def GetViewportPanel_def panel_ok_def)

lemma GetActiveCamera_active:
  assumes "viewport_active h"
  shows "GetActiveCamera self h = (Some (panel_camera h (panel_with_focus h)), h)"
  using assms by (simp add: GetActiveCamera_def GetViewportPanel_active panel_name_def)

lemma SetActiveCamera_active:
  assumes "viewport_active h"
  shows "SetActiveCamera cam self h
         = h\<lparr>panel_camera := (panel_camera h)(panel_with_focus h := panel_name cam),
             calls := calls h @ [CallLookThrough (panel_name cam) (panel_with_focus h)]\<rparr>"
  using assms by (simp add: SetActiveCamera_def GetViewportPanel_active panel_name_def)

lemma GetViewportVisibility_active:
  assumes "viewport_active h"
  shows "GetViewportVisibility self h
         = (if flags_readable h
            then (PList (map (\<lambda>Item. the (editor_flags h (snd Item))) VIEWPORT_VISIBILITY_LOOKUP), h)
            else (PNone, LogError self
                    ''Failed to get active viewport visibility. See script editor for details.''
                    [] h))"
proof (cases "those (map (\<lambda>Item. editor_flags h (snd Item)) VIEWPORT_VISIBILITY_LOOKUP)")
  case None
  with assms show ?thesis
    by (simp add: GetViewportVisibility_def GetViewportPanel_active flags_readable_def)
next
  case (Some vs)
  then have "vs = map (\<lambda>Item. the (editor_flags h (snd Item))) VIEWPORT_VISIBILITY_LOOKUP"
    using those_map_Some by blast
  with Some assms show ?thesis
    by (simp add: GetViewportVisibility_def GetViewportPanel_active flags_readable_def)
qed

lemma zip_take_right: "zip xs (take (length xs) ys) = zip xs ys"
proof (induction xs arbitrary: ys)
  case Nil
  show ?case by simp
next
  case (Cons x xs)
  then show ?case by (cases ys) simp_all
qed

lemma CreateFlags_full:
  assumes "length VIEWPORT_VISIBILITY_LOOKUP \<le> length xs"
  shows "CreateViewportVisibilityFlags (PList xs)
         = Inr (zip (map snd VIEWPORT_VISIBILITY_LOOKUP) xs)"
    and "CreateViewportVisibilityFlags (PTuple xs)
         = Inr (zip (map snd VIEWPORT_VISIBILITY_LOOKUP) xs)"
proof -
  have z: "zip (map snd VIEWPORT_VISIBILITY_LOOKUP) (take (length VIEWPORT_VISIBILITY_LOOKUP) xs)
           = zip (map snd VIEWPORT_VISIBILITY_LOOKUP) xs"
    using zip_take_right [of "map snd VIEWPORT_VISIBILITY_LOOKUP" xs] by simp
  from assms build_flags_long [of 0 VIEWPORT_VISIBILITY_LOOKUP xs "[]"]
  show "CreateViewportVisibilityFlags (PList xs)
         = Inr (zip (map snd VIEWPORT_VISIBILITY_LOOKUP) xs)"
    and "CreateViewportVisibilityFlags (PTuple xs)
         = Inr (zip (map snd VIEWPORT_VISIBILITY_LOOKUP) xs)"
    by (simp_all add: CreateViewportVisibilityFlags_def z)
qed

lemma CreateFlags_viewport:
  "CreateViewportVisibilityFlags
     (PList (map (\<lambda>Item. the (editor_flags h (snd Item))) VIEWPORT_VISIBILITY_LOOKUP))
   = Inr (viewport_flags h)"
  by (simp add: CreateFlags_full viewport_flags_def)

lemma LOOKUP_Cons: "\<exists>Item Items. VIEWPORT_VISIBILITY_LOOKUP = Item # Items"
  using length_LOOKUP by (cases VIEWPORT_VISIBILITY_LOOKUP) auto

lemma CreateFlags_None: "CreateViewportVisibilityFlags PNone = Inl TypeError"
proof -
  from LOOKUP_Cons obtain Item Items where e: "VIEWPORT_VISIBILITY_LOOKUP = Item # Items"
    by blast
  show ?thesis by (simp add: CreateViewportVisibilityFlags_def e)
qed

lemma build_flags_keys:
  "build_flags items data i acc = Inr fl \<Longrightarrow> map fst fl = map fst acc @ map snd items"
  by (induction items arbitrary: i acc) (auto split: sum.splits)

lemma CreateFlags_keys:
  "CreateViewportVisibilityFlags data = Inr fl \<Longrightarrow> map fst fl = map snd VIEWPORT_VISIBILITY_LOOKUP"
  using build_flags_keys [of VIEWPORT_VISIBILITY_LOOKUP data 0 "[]" fl]
  by (simp add: CreateViewportVisibilityFlags_def)

lemma fold_upd_apply:
  "fold (\<lambda>kv m. m(fst kv \<mapsto> snd kv)) kvs m k
   = (case map_of (rev kvs) k of None \<Rightarrow> m k | Some v \<Rightarrow> Some v)"
  by (induction kvs arbitrary: m) (auto simp add: map_add_def split: option.splits)

lemma map_of_rev_zip_map:
  "map_of (rev (zip ks (map G ks))) k = (if k \<in> set ks then Some (G k) else None)"
proof -
  have "zip (rev ks) (map G (rev ks)) = zip (rev ks) (rev (map G ks))"
    by (simp add: rev_map)
  also have "\<dots> = rev (zip ks (map G ks))"
    by (simp add: zip_rev)
  finally have "rev (zip ks (map G ks)) = zip (rev ks) (map G (rev ks))" by simp
  then show ?thesis by (simp add: map_of_zip_map)
qed

lemma viewport_flags_alt:
  "viewport_flags h
   = zip (map snd VIEWPORT_VISIBILITY_LOOKUP)
       (map (\<lambda>k. the (editor_flags h k)) (map snd VIEWPORT_VISIBILITY_LOOKUP))"
  by (simp add: viewport_flags_def comp_def)

lemma restore_flags:
  assumes r: "flags_readable h" and k: "map fst pf = map snd VIEWPORT_VISIBILITY_LOOKUP"
  shows "fold (\<lambda>kv m. m(fst kv \<mapsto> snd kv)) (viewport_flags h)
           (fold (\<lambda>kv m. m(fst kv \<mapsto> snd kv)) pf (editor_flags h))
         = editor_flags h"
proof
  fix x
  let ?ks = "map snd VIEWPORT_VISIBILITY_LOOKUP"
  have v: "map_of (rev (viewport_flags h)) x
           = (if x \<in> set ?ks then Some (the (editor_flags h x)) else None)"
    by (simp only: viewport_flags_alt map_of_rev_zip_map)
  show "fold (\<lambda>kv m. m(fst kv \<mapsto> snd kv)) (viewport_flags h)
           (fold (\<lambda>kv m. m(fst kv \<mapsto> snd kv)) pf (editor_flags h)) x
         = editor_flags h x"
  proof (cases "x \<in> set ?ks")
    case True
    with r have "editor_flags h x \<noteq> None" by (auto simp add: flags_readable_iff)
    with True v show ?thesis by (auto simp add: fold_upd_apply)
  next
    case False
    with k have "x \<notin> fst ` set pf" by (metis set_map)
    then have "x \<notin> fst ` set (rev pf)" by simp
    then have "map_of (rev pf) x = None" by (metis map_of_eq_None_iff)
    with False v show ?thesis by (simp add: fold_upd_apply)
  qed
qed

lemma capture_and_restore_eq:
  assumes a: "viewport_active h" and p: "playblast_prim h Options (fs h) = (f', raised)"
  shows "capture_and_restore self Overscan Options Cam (Some oc) ed oflags h
         = (raised,
            h\<lparr>fs := f',
              overscan := overscan h,
              panel_camera := (panel_camera h)(panel_with_focus h := oc),
              editor_flags := fold (\<lambda>kv m. m(fst kv \<mapsto> snd kv)) oflags (editor_flags h),
              calls := calls h
                @ (if Overscan then [] else [CallSetAttr (Cam @ ''.overscan'') 1])
                @ [CallPlayblast Options]
                @ (if Overscan then [] else [CallSetAttr (Cam @ ''.overscan'') (overscan h Cam)])
                @ [CallLookThrough oc (panel_with_focus h), CallModelEditorEdit ed oflags],
              maya_display := (if raised \<and> LogToMaya self
                 then maya_display h @ [LogLine ERROR
                        ''Failed to create playblast. See script editor for details.'' []]
                 else maya_display h),
              output_logged := (if raised
                 then output_logged h @ [LogLine ERROR
                        ''Failed to create playblast. See script editor for details.'' []]
                 else output_logged h)\<rparr>)"
proof -
  from a obtain e0 where m: "model_editor_of h (panel_with_focus h) = Some e0"
    and n: "panel_with_focus h \<noteq> []"
    by (auto simp add: viewport_active_def)
  show ?thesis
  proof (cases Overscan)
    case True
    with m n p show ?thesis
      by (cases raised)
        (simp_all add: capture_and_restore_def restore_viewport_def try_playblast_def
          SetActiveCamera_def GetViewportPanel_def panel_ok_def
          panel_name_def SetViewportVisibility_def LogError_def emit_log_def Let_def)
  next
    case False
    with m n p show ?thesis
      by (cases raised)
        (simp_all add: capture_and_restore_def restore_viewport_def try_playblast_def
          set_overscan_def SetActiveCamera_def GetViewportPanel_def
          panel_ok_def panel_name_def SetViewportVisibility_def LogError_def emit_log_def Let_def)
  qed
qed

lemma mutate_and_capture_eq:
  assumes a: "viewport_active h" and r: "flags_readable h"
    and c: "CreateViewportVisibilityFlags (capture_visibility self h) = Inr pf"
    and p: "playblast_prim h Options (fs h) = (f', raised)"
  shows "mutate_and_capture self (panel_with_focus h) Overscan Options Cam
           (Some (panel_camera h (panel_with_focus h))) h
         = (Next raised,
            h\<lparr>fs := f',
              calls := calls h
                @ [CallLookThrough Cam (panel_with_focus h),
                   CallModelEditorEdit (the (model_editor_of h (panel_with_focus h))) pf]
                @ (if Overscan then [] else [CallSetAttr (Cam @ ''.overscan'') 1])
                @ [CallPlayblast Options]
                @ restore_calls Overscan Cam h,
              maya_display := (if raised \<and> LogToMaya self
                 then maya_display h @ [LogLine ERROR
                        ''Failed to create playblast. See script editor for details.'' []]
                 else maya_display h),
              output_logged := (if raised
                 then output_logged h @ [LogLine ERROR
                        ''Failed to create playblast. See script editor for details.'' []]
                 else output_logged h)\<rparr>)"
proof -
  let ?panel = "panel_with_focus h"
  let ?oc = "panel_camera h ?panel"
  from a obtain e0 where m: "model_editor_of h ?panel = Some e0"
    by (auto simp add: viewport_active_def)
  define h2 where "h2 = h\<lparr>panel_camera := (panel_camera h)(?panel := Cam),
                          calls := calls h @ [CallLookThrough Cam ?panel]\<rparr>"
  have a2: "viewport_active h2" using a by (simp add: h2_def viewport_active_def)
  have s: "SetActiveCamera (Some Cam) self h = h2"
    using SetActiveCamera_active [OF a] by (simp add: h2_def panel_name_def)
  have e2: "editor_flags h2 = editor_flags h" by (simp add: h2_def)
  have r2: "flags_readable h2" using r by (simp add: flags_readable_def e2)
  have vf2: "viewport_flags h2 = viewport_flags h" by (simp add: viewport_flags_def e2)
  have gv: "GetViewportVisibility self h2
            = (PList (map (\<lambda>Item. the (editor_flags h (snd Item))) VIEWPORT_VISIBILITY_LOOKUP), h2)"
    using GetViewportVisibility_active [OF a2] r2 by (simp add: e2)
  have cf: "CreateViewportVisibilityFlags
              (PList (map (\<lambda>Item. the (editor_flags h (snd Item))) VIEWPORT_VISIBILITY_LOOKUP))
            = Inr (viewport_flags h)"
    by (rule CreateFlags_viewport)
  have g: "GetVisibility self h2 = (capture_visibility self h, h2)"
    by (simp add: GetVisibility_def capture_visibility_def gv)
  have m2: "model_editor_of h2 ?panel = Some e0" using m by (simp add: h2_def)
  define h5 where "h5 = SetViewportVisibility e0 pf h2"
  have a5: "viewport_active h5"
    using a by (simp add: h5_def h2_def SetViewportVisibility_def viewport_active_def)
  have p5: "playblast_prim h5 Options (fs h5) = (f', raised)"
    using p by (simp add: h5_def h2_def SetViewportVisibility_def)
  have k: "map fst pf = map snd VIEWPORT_VISIBILITY_LOOKUP"
    using c by (rule CreateFlags_keys)
  have rf: "fold (\<lambda>kv m. m(fst kv \<mapsto> snd kv)) (viewport_flags h)
              (fold (\<lambda>kv m. m(fst kv \<mapsto> snd kv)) pf (editor_flags h)) = editor_flags h"
    using r k by (rule restore_flags)
  have "mutate_and_capture self ?panel Overscan Options Cam (Some ?oc) h
        = (case capture_and_restore self Overscan Options Cam (Some ?oc) e0 (viewport_flags h) h5 of
             (PlayblastFailed, h') \<Rightarrow> (Next PlayblastFailed, h'))"
    by (simp add: mutate_and_capture_def s gv cf g c m2 h5_def)
  also have "\<dots> = (Next raised,
            h\<lparr>fs := f',
              calls := calls h
                @ [CallLookThrough Cam ?panel, CallModelEditorEdit e0 pf]
                @ (if Overscan then [] else [CallSetAttr (Cam @ ''.overscan'') 1])
                @ [CallPlayblast Options]
                @ restore_calls Overscan Cam h,
              maya_display := (if raised \<and> LogToMaya self
                 then maya_display h @ [LogLine ERROR
                        ''Failed to create playblast. See script editor for details.'' []]
                 else maya_display h),
              output_logged := (if raised
                 then output_logged h @ [LogLine ERROR
                        ''Failed to create playblast. See script editor for details.'' []]
                 else output_logged h)\<rparr>)"
    unfolding capture_and_restore_eq [OF a5 p5]
    by (simp add: h5_def h2_def SetViewportVisibility_def rf restore_calls_def m)
  finally show ?thesis by (simp add: m)
qed

lemma mutate_and_capture_unreadable:
  assumes a: "viewport_active h" and r: "\<not> flags_readable h"
  shows "fst (mutate_and_capture self (panel_with_focus h) Overscan Options Cam oc h)
         = Raise TypeError"
    and "evolves h (snd (mutate_and_capture self (panel_with_focus h) Overscan Options Cam oc h))"
    and "filter is_playblast_call
           (new_calls h (snd (mutate_and_capture self (panel_with_focus h) Overscan Options
                                Cam oc h))) = []"
proof -
  let ?panel = "panel_with_focus h"
  define h2 where "h2 = h\<lparr>panel_camera := (panel_camera h)(?panel := Cam),
                          calls := calls h @ [CallLookThrough Cam ?panel]\<rparr>"
  have a2: "viewport_active h2" using a by (simp add: h2_def viewport_active_def)
  have s: "SetActiveCamera (Some Cam) self h = h2"
    using SetActiveCamera_active [OF a] by (simp add: h2_def panel_name_def)
  have r2: "\<not> flags_readable h2" using r by (simp add: flags_readable_def h2_def)
  have e: "mutate_and_capture self ?panel Overscan Options Cam oc h
        = (Raise TypeError, LogError self
             ''Failed to get active viewport visibility. See script editor for details.'' [] h2)"
    using GetViewportVisibility_active [OF a2] r2
    by (simp add: mutate_and_capture_def s CreateFlags_None)
  show "fst (mutate_and_capture self ?panel Overscan Options Cam oc h) = Raise TypeError"
    by (simp add: e)
  show "evolves h (snd (mutate_and_capture self ?panel Overscan Options Cam oc h))"
    by (simp add: e h2_def LogError_def emit_log_def evolves_def)
  show "filter is_playblast_call
           (new_calls h (snd (mutate_and_capture self ?panel Overscan Options Cam oc h))) = []"
    by (simp add: e h2_def LogError_def emit_log_def new_calls_def)
qed

lemma mutate_and_capture_short:
  assumes a: "viewport_active h" and r: "flags_readable h"
    and c: "CreateViewportVisibilityFlags (capture_visibility self h) = Inl e"
  shows "fst (mutate_and_capture self (panel_with_focus h) Overscan Options Cam oc h) = Raise e"
    and "evolves h (snd (mutate_and_capture self (panel_with_focus h) Overscan Options Cam oc h))"
    and "filter is_playblast_call
           (new_calls h (snd (mutate_and_capture self (panel_with_focus h) Overscan Options
                                Cam oc h))) = []"
    and "new_log h (snd (mutate_and_capture self (panel_with_focus h) Overscan Options
                                Cam oc h)) = []"
    and "panel_camera (snd (mutate_and_capture self (panel_with_focus h) Overscan Options
                                Cam oc h)) = (panel_camera h)(panel_with_focus h := Cam)"
proof -
  let ?panel = "panel_with_focus h"
  define h2 where "h2 = h\<lparr>panel_camera := (panel_camera h)(?panel := Cam),
                          calls := calls h @ [CallLookThrough Cam ?panel]\<rparr>"
  have a2: "viewport_active h2" using a by (simp add: h2_def viewport_active_def)
  have s: "SetActiveCamera (Some Cam) self h = h2"
    using SetActiveCamera_active [OF a] by (simp add: h2_def panel_name_def)
  have e2: "editor_flags h2 = editor_flags h" by (simp add: h2_def)
  have r2: "flags_readable h2" using r by (simp add: flags_readable_def e2)
  have gv: "GetViewportVisibility self h2
            = (PList (map (\<lambda>Item. the (editor_flags h (snd Item))) VIEWPORT_VISIBILITY_LOOKUP), h2)"
    using GetViewportVisibility_active [OF a2] r2 by (simp add: e2)
  have g: "GetVisibility self h2 = (capture_visibility self h, h2)"
    by (simp add: GetVisibility_def capture_visibility_def gv)
  have q: "mutate_and_capture self ?panel Overscan Options Cam oc h = (Raise e, h2)"
    by (simp add: mutate_and_capture_def s gv CreateFlags_viewport g c)
  show "fst (mutate_and_capture self ?panel Overscan Options Cam oc h) = Raise e"
    by (simp add: q)
  show "evolves h (snd (mutate_and_capture self ?panel Overscan Options Cam oc h))"
    by (simp add: q h2_def evolves_def)
  show "filter is_playblast_call
           (new_calls h (snd (mutate_and_capture self ?panel Overscan Options Cam oc h))) = []"
    by (simp add: q h2_def new_calls_def)
  show "new_log h (snd (mutate_and_capture self ?panel Overscan Options Cam oc h)) = []"
    by (simp add: q h2_def new_log_def)
  show "panel_camera (snd (mutate_and_capture self ?panel Overscan Options Cam oc h))
        = (panel_camera h)(?panel := Cam)"
    by (simp add: q h2_def)
qed

lemma execute_capture_active:
  assumes "viewport_active h"
  shows "execute_capture self (panel_with_focus h) Overscan Options h
         = (if capture_camera self h \<notin> set (list_cameras h)
            then (Return, LogError self ''Camera does not exist: {0}''
                            [PStr (capture_camera self h)] h)
            else mutate_and_capture self (panel_with_focus h) Overscan Options
                   (capture_camera self h) (Some (panel_camera h (panel_with_focus h))) h)"
  using assms
  by (simp add: execute_capture_def GetActiveCamera_active capture_camera_def
      split: option.splits)

lemma emit_log_invisible:
  "viewport_active (emit_log self l h) = viewport_active h"
  "flags_readable (emit_log self l h) = flags_readable h"
  "capture_visibility self' (emit_log self l h) = capture_visibility self' h"
  "list_cameras (emit_log self l h) = list_cameras h"
  "playblast_prim (emit_log self l h) = playblast_prim h"
  "fs (emit_log self l h) = fs h"
  "panel_with_focus (emit_log self l h) = panel_with_focus h"
  "panel_camera (emit_log self l h) = panel_camera h"
  "model_editor_of (emit_log self l h) = model_editor_of h"
  "restore_calls ov cam (emit_log self l h) = restore_calls ov cam h"
  "calls (emit_log self l h) = calls h"
  by (simp_all add: emit_log_def viewport_active_def flags_readable_def
      capture_visibility_def restore_calls_def viewport_flags_def)

lemma emit_log_camera:
  "capture_camera self' (emit_log self l h) = capture_camera self' h"
  by (simp add: emit_log_def capture_camera_def split: option.splits)

lemma presets_known_returns:
  assumes "presets_known self"
  shows "returns (GetResolutionWidthHeight self h)" and "returns (GetStartEndFrame self h)"
proof -
  show "returns (GetResolutionWidthHeight self h)"
  proof (cases "ResolutionPreset self")
    case None
    then show ?thesis by (simp add: GetResolutionWidthHeight_def)
  next
    case (Some p)
    with assms have k: "p = [] \<or> p \<in> set (map fst RESOLUTION_LOOKUP)"
      by (simp add: presets_known_def)
    show ?thesis
    proof (cases "p = [] \<or> p = ''Render''")
      case True
      with Some show ?thesis
        by (auto simp add: GetResolutionWidthHeight_def PresetToResolution_def)
    next
      case False
      with k obtain wh where "map_of RESOLUTION_LOOKUP p = Some wh"
        by (metis map_of_eq_None_iff not_Some_eq set_map)
      with False Some show ?thesis
        by (simp add: GetResolutionWidthHeight_def PresetToResolution_def)
    qed
  qed
  show "returns (GetStartEndFrame self h)"
  proof (cases "FrameRangePreset self")
    case None
    then show ?thesis by (simp add: GetStartEndFrame_def)
  next
    case (Some p)
    with assms have "p = [] \<or> p \<in> set FRAME_RANGE_PRESETS"
      by (simp add: presets_known_def)
    then have "p = [] \<or> p = ''Render'' \<or> p = ''Playback'' \<or> p = ''Animation''"
      by (simp add: FRAME_RANGE_PRESETS_def)
    with Some show ?thesis
      by (auto simp add: GetStartEndFrame_def PresetToFrameRange_def)
  qed
qed

lemma visibility_covers_returns:
  assumes "visibility_covers (Visibility self)"
  shows "returns (CreateViewportVisibilityFlags (capture_visibility self h))"
proof (cases "truthy (Visibility self)")
  case False
  then show ?thesis by (simp add: capture_visibility_def CreateFlags_viewport)
next
  case True
  with assms show ?thesis
    by (cases "Visibility self") (simp_all add: capture_visibility_def CreateFlags_full)
qed

lemma only_logged_evolves:
  assumes "only_logged h h'"
  shows "evolves h h'" and "new_calls h h' = []" and "same_viewport h h'"
proof -
  from assms have e: "h' = h\<lparr>maya_display := maya_display h', output_logged := output_logged h'\<rparr>"
    by (rule only_logged_eq)
  from assms have t: "take (length (output_logged h)) (output_logged h') = output_logged h"
    by (simp add: only_logged_def)
  then have p: "prefix (output_logged h) (output_logged h')"
    by (metis take_is_prefix)
  have c: "calls h' = calls h" by (subst e) simp
  from only_logged_untouched [OF assms]
  have u: "fs h' = fs h" "panel_camera h' = panel_camera h" "editor_flags h' = editor_flags h"
    "overscan h' = overscan h"
    by simp_all
  from assms have o: "h'\<lparr>maya_display := maya_display h, output_logged := output_logged h\<rparr> = h"
    by (simp add: only_logged_def)
  have "h'\<lparr>calls := calls h', maya_display := maya_display h,
         output_logged := output_logged h, fs := fs h', panel_camera := panel_camera h',
         editor_flags := editor_flags h', overscan := overscan h'\<rparr>
        = h'\<lparr>maya_display := maya_display h, output_logged := output_logged h\<rparr>"
    by simp
  then have "h'\<lparr>calls := calls h, maya_display := maya_display h,
         output_logged := output_logged h, fs := fs h, panel_camera := panel_camera h,
         editor_flags := editor_flags h, overscan := overscan h\<rparr> = h"
    by (simp only: c u o)
  with p c show "evolves h h'" by (simp add: evolves_def)
  from c show "new_calls h h' = []" by (simp add: new_calls_def)
  from only_logged_untouched [OF assms] show "same_viewport h h'"
    by (simp add: same_viewport_def)
qed

lemma execute_resolved_run:
  assumes "\<not> (RequiresFfmpeg self \<and> \<not> Overwrite
              \<and> path_exists (fs h) (final_output_path self d f h))"
    and "GetResolutionWidthHeight self h = Inr wh"
    and "GetStartEndFrame self h = Inr (s, e)"
  shows "execute_resolved self panel d f pd Overscan ShowOrnaments ShowInViewer Overwrite h
         = (case execute_capture self panel Overscan
                   (capture_options self d f pd ShowOrnaments ShowInViewer Overwrite wh s e h)
                   (LogOutput self ''Playblast options: {0}''
                      [options_pyval (capture_options self d f pd ShowOrnaments ShowInViewer
                                        Overwrite wh s e h)] h) of
              (Raise x, h2) \<Rightarrow> (Inl x, h2)
            | (Return, h2) \<Rightarrow> (Inr (), h2)
            | (Next PlayblastFailed, h2) \<Rightarrow>
                if PlayblastFailed then (Inr (), h2)
                else if RequiresFfmpeg self
                then execute_encode self (d @ ''/playblast_temp'') f pd
                       (final_output_path self d f h) s ShowInViewer h2
                else (Inr (), h2))"
  using assms by (auto simp add: execute_resolved_def Let_def)

lemma execute_when_prechecks_pass:
  assumes "prechecks_pass self OutputDir FileName h"
  shows "execute self OutputDir FileName Padding Overscan ShowOrnaments ShowInViewer Overwrite h
         = execute_resolved self (panel_with_focus h) (ResolveOutputDirectoryPath OutputDir h)
             (ResolveOutputFilename FileName h) (run_padding Padding)
             Overscan ShowOrnaments ShowInViewer Overwrite h"
proof -
  from assms have "\<not> (RequiresFfmpeg self \<and> (FfmpegPath self = []
              \<or> \<not> path_exists (fs h) (FfmpegPath self)
              \<or> path_isdir (fs h) (FfmpegPath self)))"
    and "model_editor_of h (panel_with_focus h) \<noteq> None"
    and "panel_with_focus h \<noteq> []" and "OutputDir \<noteq> []" and "FileName \<noteq> []"
    by (auto simp add: prechecks_pass_def viewport_active_def split: if_splits)
  then show ?thesis
    unfolding run_padding_def by (rule execute_prechecks_pass)
qed

lemma execute_when_prechecks_fail:
  assumes "\<not> prechecks_pass self OutputDir FileName h"
  shows "fst (execute self OutputDir FileName Padding Overscan ShowOrnaments ShowInViewer
                Overwrite h) = Inr ()
         \<and> error_reported h (snd (execute self OutputDir FileName Padding Overscan ShowOrnaments
                ShowInViewer Overwrite h))"
proof -
  from assms have "RequiresFfmpeg self \<and> (FfmpegPath self = []
              \<or> \<not> path_exists (fs h) (FfmpegPath self)
              \<or> path_isdir (fs h) (FfmpegPath self))
           \<or> model_editor_of h (panel_with_focus h) = None \<or> panel_with_focus h = []
           \<or> OutputDir = [] \<or> FileName = []"
    by (auto simp add: prechecks_pass_def viewport_active_def split: if_splits)
  then show ?thesis by (rule execute_precheck_abort)
qed

lemma returns_Inr: "returns x \<Longrightarrow> \<exists>v. x = Inr v"
  by (cases x) simp_all

lemma execute_reaches:
  assumes rc: "reaches_capture self OutputDir FileName Overwrite h"
    and p: "playblast_prim h
              (run_options self OutputDir FileName Padding ShowOrnaments ShowInViewer Overwrite h)
              (fs h) = (f', raised)"
  shows "\<exists>h2 pre.
      execute self OutputDir FileName Padding Overscan ShowOrnaments ShowInViewer Overwrite h
        = (if raised then (Inr (), h2)
           else if RequiresFfmpeg self
           then execute_encode self (ResolveOutputDirectoryPath OutputDir h @ ''/playblast_temp'')
                  (ResolveOutputFilename FileName h) (run_padding Padding)
                  (final_output_path self (ResolveOutputDirectoryPath OutputDir h)
                     (ResolveOutputFilename FileName h) h)
                  (run_start self h) ShowInViewer h2
           else (Inr (), h2))
      \<and> evolves h h2 \<and> same_viewport h h2 \<and> fs h2 = f'
      \<and> new_calls h h2
        = pre @ [CallPlayblast (run_options self OutputDir FileName Padding ShowOrnaments
                                  ShowInViewer Overwrite h)]
          @ restore_calls Overscan (capture_camera self h) h
      \<and> filter is_playblast_call pre = [] \<and> filter is_rmdir_call pre = []
      \<and> new_log h h2
        = LogLine INFO ''Playblast options: {0}''
            [options_pyval (run_options self OutputDir FileName Padding ShowOrnaments
                              ShowInViewer Overwrite h)]
          # (if raised
             then [LogLine ERROR ''Failed to create playblast. See script editor for details.'' []]
             else [])"
proof -
  let ?d = "ResolveOutputDirectoryPath OutputDir h"
  let ?f = "ResolveOutputFilename FileName h"
  let ?pd = "run_padding Padding"
  let ?O = "run_options self OutputDir FileName Padding ShowOrnaments ShowInViewer Overwrite h"
  let ?Cam = "capture_camera self h"
  let ?panel = "panel_with_focus h"
  from rc have pp: "prechecks_pass self OutputDir FileName h"
    and no: "\<not> (RequiresFfmpeg self \<and> \<not> Overwrite
                 \<and> path_exists (fs h) (final_output_path self ?d ?f h))"
    and r1: "returns (GetResolutionWidthHeight self h)"
    and r2: "returns (GetStartEndFrame self h)"
    and cam: "?Cam \<in> set (list_cameras h)"
    and fr: "flags_readable h"
    and r3: "returns (CreateViewportVisibilityFlags (capture_visibility self h))"
    by (simp_all add: reaches_capture_def output_in_the_way_def)
  from pp have va: "viewport_active h" by (simp add: prechecks_pass_def)
  from r1 obtain wh where g1: "GetResolutionWidthHeight self h = Inr wh"
    using returns_Inr by blast
  from r2 obtain s e where g2: "GetStartEndFrame self h = Inr (s, e)"
    using returns_Inr by (metis surj_pair)
  from r3 obtain pf where g3: "CreateViewportVisibilityFlags (capture_visibility self h) = Inr pf"
    using returns_Inr by blast
  have O: "?O = capture_options self ?d ?f ?pd ShowOrnaments ShowInViewer Overwrite wh s e h"
    by (simp add: run_options_def run_resolution_def run_start_def run_end_def g1 g2)
  have s: "run_start self h = s" by (simp add: run_start_def g2)
  define h1 where "h1 = LogOutput self ''Playblast options: {0}'' [options_pyval ?O] h"
  have i: "viewport_active h1" "flags_readable h1" "capture_camera self h1 = ?Cam"
    "capture_visibility self h1 = capture_visibility self h" "list_cameras h1 = list_cameras h"
    "playblast_prim h1 = playblast_prim h" "fs h1 = fs h" "panel_with_focus h1 = ?panel"
    "panel_camera h1 = panel_camera h" "model_editor_of h1 = model_editor_of h"
    "restore_calls Overscan ?Cam h1 = restore_calls Overscan ?Cam h" "calls h1 = calls h"
    using va fr
    by (simp_all add: h1_def LogOutput_def emit_log_invisible emit_log_camera)
  define h2 where "h2 = snd (mutate_and_capture self ?panel Overscan ?O ?Cam
                               (Some (panel_camera h ?panel)) h1)"
  have E1: "execute self OutputDir FileName Padding Overscan ShowOrnaments ShowInViewer Overwrite h
        = execute_resolved self ?panel ?d ?f ?pd Overscan ShowOrnaments ShowInViewer Overwrite h"
    using pp by (rule execute_when_prechecks_pass)
  have E3: "execute_capture self ?panel Overscan ?O h1
        = mutate_and_capture self ?panel Overscan ?O ?Cam (Some (panel_camera h ?panel)) h1"
    using execute_capture_active [OF i(1), of self Overscan ?O] cam
    by (simp add: i)
  have E4: "mutate_and_capture self ?panel Overscan ?O ?Cam (Some (panel_camera h ?panel)) h1
        = (Next raised,
            h1\<lparr>fs := f',
              calls := calls h
                @ [CallLookThrough ?Cam ?panel,
                   CallModelEditorEdit (the (model_editor_of h ?panel)) pf]
                @ (if Overscan then [] else [CallSetAttr (?Cam @ ''.overscan'') 1])
                @ [CallPlayblast ?O]
                @ restore_calls Overscan ?Cam h,
              maya_display := (if raised \<and> LogToMaya self
                 then maya_display h1 @ [LogLine ERROR
                        ''Failed to create playblast. See script editor for details.'' []]
                 else maya_display h1),
              output_logged := (if raised
                 then output_logged h1 @ [LogLine ERROR
                        ''Failed to create playblast. See script editor for details.'' []]
                 else output_logged h1)\<rparr>)"
    using mutate_and_capture_eq [OF i(1) i(2), of self pf ?O f' raised Overscan ?Cam] g3 p
    by (simp add: i)
  have h2: "h2 = h1\<lparr>fs := f',
              calls := calls h
                @ [CallLookThrough ?Cam ?panel,
                   CallModelEditorEdit (the (model_editor_of h ?panel)) pf]
                @ (if Overscan then [] else [CallSetAttr (?Cam @ ''.overscan'') 1])
                @ [CallPlayblast ?O]
                @ restore_calls Overscan ?Cam h,
              maya_display := (if raised \<and> LogToMaya self
                 then maya_display h1 @ [LogLine ERROR
                        ''Failed to create playblast. See script editor for details.'' []]
                 else maya_display h1),
              output_logged := (if raised
                 then output_logged h1 @ [LogLine ERROR
                        ''Failed to create playblast. See script editor for details.'' []]
                 else output_logged h1)\<rparr>"
    by (simp add: h2_def E4)
  have E5: "execute_capture self ?panel Overscan ?O h1 = (Next raised, h2)"
    by (simp add: E3 E4 h2)
  have E: "execute self OutputDir FileName Padding Overscan ShowOrnaments ShowInViewer Overwrite h
        = (if raised then (Inr (), h2)
           else if RequiresFfmpeg self
           then execute_encode self (?d @ ''/playblast_temp'') ?f ?pd
                  (final_output_path self ?d ?f h) (run_start self h) ShowInViewer h2
           else (Inr (), h2))"
    unfolding E1 execute_resolved_run [OF no g1 g2] s
    using E5 by (simp add: O h1_def)
  let ?pre = "[CallLookThrough ?Cam ?panel,
               CallModelEditorEdit (the (model_editor_of h ?panel)) pf]
              @ (if Overscan then [] else [CallSetAttr (?Cam @ ''.overscan'') 1])"
  have ev: "evolves h h2"
    by (simp add: h2 h1_def LogOutput_def emit_log_def evolves_def)
  have sv: "same_viewport h h2"
    by (simp add: h2 h1_def LogOutput_def emit_log_def same_viewport_def)
  have f: "fs h2 = f'" by (simp add: h2)
  have c: "new_calls h h2 = ?pre @ [CallPlayblast ?O] @ restore_calls Overscan ?Cam h"
    by (simp add: h2 new_calls_def)
  have l: "new_log h h2
        = LogLine INFO ''Playblast options: {0}'' [options_pyval ?O]
          # (if raised
             then [LogLine ERROR ''Failed to create playblast. See script editor for details.'' []]
             else [])"
    by (simp add: h2 h1_def LogOutput_def emit_log_def new_log_def)
  have q: "filter is_playblast_call ?pre = []" "filter is_rmdir_call ?pre = []"
    by simp_all
  from E ev sv f c l q show ?thesis by blast
qed

end
